theory Spec2Isabelle
  imports Main
begin

section \<open>The CAAS application provisioner worker\<close>

text \<open>
  A shallow embedding of \<^verbatim>\<open>worker/caasapplicationprovisioner\<close> (the file
  \<^verbatim>\<open>src/unnamed/part_001\<close>, package \<^verbatim>\<open>caasapplicationprovisioner\<close>).

  The worker talks to collaborators that live outside the package: the
  provisioner facade, the unit facade, the broker and its application handle
  on the substrate, the catacomb and the clock.
  They are modelled as an environment \<open>env\<close>: one function per method, which
  receives the list of all collaborator calls made so far (so an answer may
  depend on everything that happened before, as the answer of a stateful
  service does) and the arguments of the call. Every call the worker makes is
  appended to the field \<open>calls\<close> of the worker state. A Go method returning
  \<^verbatim>\<open>(T, error)\<close> is a function returning a pair of a value and an optional
  error, because the Go code sometimes reads the value although the error is set.
  Logging has no effect on the state or on the collaborators and is left out.
\<close>

subsection \<open>Errors\<close>

text \<open>
  The kinds of error the package tells apart with \<^verbatim>\<open>errors.Is\<close>,
  \<^verbatim>\<open>errors.IsNotFound\<close>, \<^verbatim>\<open>errors.IsForbidden\<close> and
  \<^verbatim>\<open>params.IsCodeTryAgain\<close>. \<open>TryAgain\<close> is the package constant
  \<^verbatim>\<open>tryAgain\<close>; \<open>CodeTryAgain\<close> is an RPC error carrying the code "try again".
\<close>

datatype errkind =
  NotFound | TryAgain | CodeTryAgain | Forbidden | NotImplemented | NotValid | OtherError

text \<open>
  An error is a root cause with its kind and message, possibly wrapped in
  contexts (\<^verbatim>\<open>errors.Annotatef\<close>, \<^verbatim>\<open>fmt.Errorf("...: %w", err)\<close>). Wrapping
  keeps the kind and prefixes the message. \<^verbatim>\<open>errors.Trace\<close> records a source
  location only, so it is the identity here.
\<close>

datatype error = Err errkind string | Wrap string error

fun kind :: "error \<Rightarrow> errkind" where
  "kind (Err k m) = k"
| "kind (Wrap c e) = kind e"

fun errorString :: "error \<Rightarrow> string" where
  "errorString (Err k m) = m"
| "errorString (Wrap c e) = c @ '': '' @ errorString e"

definition tryAgain :: error where
  "tryAgain = Err TryAgain ''try again''"

definition isNotFound :: "error \<Rightarrow> bool" where
  "isNotFound e = (kind e = NotFound)"

definition isTryAgain :: "error \<Rightarrow> bool" where
  "isTryAgain e = (kind e = TryAgain)"

definition isCodeTryAgain :: "error \<Rightarrow> bool" where
  "isCodeTryAgain e = (kind e = CodeTryAgain)"

definition isForbidden :: "error \<Rightarrow> bool" where
  "isForbidden e = (kind e = Forbidden)"

subsection \<open>Formatting verbs\<close>

text \<open>
  \<^verbatim>\<open>%q\<close> puts its argument in double quotes (Go also escapes special
  characters, which names of applications and units do not contain), and
  \<^verbatim>\<open>%d\<close> prints a decimal number.
\<close>

definition quote :: "string \<Rightarrow> string" where
  "quote s = [CHR 0x22] @ s @ [CHR 0x22]"

definition digit :: "nat \<Rightarrow> char" where
  "digit n = char_of (48 + n)"

fun showNat :: "nat \<Rightarrow> string" where
  "showNat n = (if n < 10 then [digit n] else showNat (n div 10) @ [digit (n mod 10)])"

definition showInt :: "int \<Rightarrow> string" where
  "showInt i = (if i < 0 then ''-'' @ showNat (nat (- i)) else showNat (nat i))"

subsection \<open>Data\<close>

text \<open>
  \<^verbatim>\<open>life.Value\<close> is a string type with the three constants below; \<open>OtherLife\<close>
  stands for any other string.
\<close>

datatype life = Alive | Dying | Dead | OtherLife string

fun lifeString :: "life \<Rightarrow> string" where
  "lifeString Alive = ''alive''"
| "lifeString Dying = ''dying''"
| "lifeString Dead = ''dead''"
| "lifeString (OtherLife s) = s"

text \<open>\<^verbatim>\<open>status.Status\<close> is a string type; these are the constants the worker uses.\<close>

type_synonym status = string

definition statusActive :: status where "statusActive = ''active''"
definition statusWaiting :: status where "statusWaiting = ''waiting''"
definition statusError :: status where "statusError = ''error''"
definition statusUnknown :: status where "statusUnknown = ''unknown''"

text \<open>
  A \<^verbatim>\<open>names.Tag\<close> is used through its two methods: \<^verbatim>\<open>Id()\<close> and
  \<^verbatim>\<open>String()\<close>.
\<close>

record tag =
  tagId :: string
  tagString :: string

text \<open>
  \<^verbatim>\<open>params.CAASUnit\<close>: the tag of the unit and, of its status, the field
  \<^verbatim>\<open>UnitStatus.AgentStatus.Status\<close> that the worker reads.
\<close>

record CAASUnit =
  Tag :: tag
  AgentStatus :: string

record CAASApplicationProvisioningState =
  Scaling :: bool
  ScaleTarget :: int

text \<open>\<^verbatim>\<open>caas.ApplicationState\<close>: the replicas are provider ids.\<close>

record ApplicationState =
  DesiredReplicas :: int
  Replicas :: "string list"

text \<open>\<^verbatim>\<open>caas.DeploymentState\<close>, the answer of \<^verbatim>\<open>Exists\<close>.\<close>

record DeploymentState =
  Exists :: bool
  Terminating :: bool

subsection \<open>The application configuration\<close>

text \<open>
  \<^verbatim>\<open>reflect.DeepEqual\<close> tells a \<^verbatim>\<open>nil\<close> slice or map from an empty one, so
  the slices and maps of the configuration are optional values: \<open>None\<close> is
  \<^verbatim>\<open>nil\<close>. With that, \<^verbatim>\<open>reflect.DeepEqual\<close> on configurations is equality.
  Values the worker only copies and compares (the agent version, the
  constraints, the parameters of a filesystem or a device, the details of an
  image) are strings.
\<close>

record MountConfig =
  StorageName :: string
  Path :: string

record ContainerConfig =
  Name :: string
  Image :: string
  Mounts :: "MountConfig list option"

record ApplicationConfig =
  IsPrivateImageRepo :: bool
  IntroductionSecret :: string
  AgentVersion :: string
  AgentImagePath :: string
  ControllerAddresses :: string
  ControllerCertBundle :: string
  ResourceTags :: "(string \<rightharpoonup> string) option"
  Constraints :: string
  Filesystems :: "string list option"
  Devices :: "string list option"
  CharmBaseImagePath :: string
  Containers :: "(string \<rightharpoonup> ContainerConfig) option"
  CharmModifiedVersion :: int
  Trust :: bool
  InitialScale :: int

text \<open>The zero value of the structure, the initial \<^verbatim>\<open>lastApplied\<close>.\<close>

definition zeroApplicationConfig :: ApplicationConfig where
  "zeroApplicationConfig =
     \<lparr>IsPrivateImageRepo = False, IntroductionSecret = [], AgentVersion = [],
      AgentImagePath = [], ControllerAddresses = [], ControllerCertBundle = [],
      ResourceTags = None, Constraints = [], Filesystems = None, Devices = None,
      CharmBaseImagePath = [], Containers = None, CharmModifiedVersion = 0,
      Trust = False, InitialScale = 0\<rparr>"

text \<open>
  The provisioning info of the facade. \<open>provIsPrivate\<close> is the result of the
  method \<^verbatim>\<open>ImageDetails.IsPrivate()\<close>, and \<open>provCharmURL\<close> the string of the
  charm URL, \<open>None\<close> for a \<^verbatim>\<open>nil\<close> pointer.
\<close>

record Base =
  baseName :: string
  baseTrack :: string
  baseRisk :: string

record ProvisioningInfo =
  provVersion :: string
  provAPIAddresses :: "string list"
  provCACert :: string
  provTags :: "(string \<rightharpoonup> string) option"
  provConstraints :: string
  provFilesystems :: "string list option"
  provDevices :: "string list option"
  provBase :: Base
  provRepository :: string
  provRegistryPath :: string
  provIsPrivate :: bool
  provCharmModifiedVersion :: int
  provCharmURL :: "string option"
  provTrust :: bool
  provScale :: int

text \<open>
  \<^verbatim>\<open>charm.Container\<close> of the charm metadata. The containers of a charm are a Go
  map; the facade answers with them in the order in which the \<^verbatim>\<open>range\<close>
  statement visits them.
\<close>

record CharmMount =
  Storage :: string
  Location :: string

record CharmContainer =
  Resource :: string
  charmMounts :: "CharmMount list"

subsection \<open>Services and units of the substrate\<close>

record StatusInfo =
  infoStatus :: status
  infoMessage :: string
  infoData :: string
  infoSince :: "int option"

record Service =
  serviceId :: string
  serviceAddresses :: "string list"
  serviceStatus :: StatusInfo

record EntityStatus =
  entityStatus :: status
  entityInfo :: string
  entityData :: string

record UpdateApplicationServiceArg =
  argApplicationTag :: string
  argProviderId :: string
  argAddresses :: "string list"

record VolumeInfo =
  volVolumeId :: string
  volSize :: nat
  volPersistent :: bool
  volStatus :: StatusInfo

record FilesystemInfo =
  fsStorageName :: string
  fsFilesystemId :: string
  fsSize :: nat
  fsMountPoint :: string
  fsReadOnly :: bool
  fsStatus :: StatusInfo
  fsVolume :: VolumeInfo

record Unit =
  unitId :: string
  unitAddress :: string
  unitPorts :: "string list"
  unitDying :: bool
  unitStateful :: bool
  unitStatus :: StatusInfo
  unitFilesystemInfo :: "FilesystemInfo list"

record KubernetesVolumeInfo =
  kvVolumeId :: string
  kvSize :: nat
  kvPersistent :: bool
  kvStatus :: string
  kvInfo :: string
  kvData :: string

record KubernetesFilesystemInfo =
  kfStorageName :: string
  kfFilesystemId :: string
  kfSize :: nat
  kfMountPoint :: string
  kfReadOnly :: bool
  kfStatus :: string
  kfInfo :: string
  kfData :: string
  kfVolume :: KubernetesVolumeInfo

record ApplicationUnitParams =
  upProviderId :: string
  upAddress :: string
  upPorts :: "string list"
  upStateful :: bool
  upStatus :: string
  upInfo :: string
  upData :: string
  upFilesystemInfo :: "KubernetesFilesystemInfo list"

record UpdateApplicationUnits =
  uuApplicationTag :: string
  uuStatus :: EntityStatus
  uuUnits :: "ApplicationUnitParams list"

record ApplicationUnitInfo =
  uiProviderId :: string
  uiUnitTag :: string

subsection \<open>Collaborator calls\<close>

text \<open>The watchers the event loop starts on demand.\<close>

datatype watcher = ProvisionWatcher | AppWatcher | ReplicaWatcher

datatype call =
    FacadeUnits string
  | FacadeLife string
  | FacadeSetProvisioningState string bool int
  | FacadeRemoveUnit string
  | FacadeDestroyUnits "string list"
  | FacadeSetOperatorStatus string status string
  | FacadeProvisioningInfo string
  | FacadeCharmInfo string
  | FacadeApplicationOCIResources string
  | FacadeClearApplicationResources string
  | FacadeUpdateUnits UpdateApplicationUnits
  | FacadeWatchProvisioningInfo string
  | UnitFacadeApplicationScale string
  | UnitFacadeApplicationTrust string
  | UnitFacadeUpdateApplicationService UpdateApplicationServiceArg
  | AppScale int
  | AppState
  | AppUnitsToRemove int
  | AppTrust bool
  | AppExists
  | AppEnsure ApplicationConfig
  | AppDelete
  | AppService
  | AppUnits
  | AppWatch
  | AppWatchReplicas
  | BrokerAnnotateUnit string string tag
  | CatacombAdd watcher
  | ClockNow
  | ClockAfter int

text \<open>
  The answers of the collaborators. \<open>imageForBase\<close> (\<^verbatim>\<open>podcfg.ImageForBase\<close>)
  and \<open>parseUnitTag\<close> (\<^verbatim>\<open>names.ParseUnitTag\<close>) are pure functions of other
  packages. Times and durations are in nanoseconds.
\<close>

record env =
  facadeUnits :: "call list \<Rightarrow> string \<Rightarrow> CAASUnit list \<times> error option"
  facadeLife :: "call list \<Rightarrow> string \<Rightarrow> life \<times> error option"
  facadeSetProvisioningState :: "call list \<Rightarrow> string \<Rightarrow> CAASApplicationProvisioningState \<Rightarrow> error option"
  facadeRemoveUnit :: "call list \<Rightarrow> string \<Rightarrow> error option"
  facadeDestroyUnits :: "call list \<Rightarrow> string list \<Rightarrow> error option"
  facadeSetOperatorStatus :: "call list \<Rightarrow> string \<Rightarrow> status \<Rightarrow> string \<Rightarrow> error option"
  facadeProvisioningInfo :: "call list \<Rightarrow> string \<Rightarrow> ProvisioningInfo \<times> error option"
  facadeCharmInfo :: "call list \<Rightarrow> string \<Rightarrow> (string \<times> CharmContainer) list \<times> error option"
  facadeApplicationOCIResources :: "call list \<Rightarrow> string \<Rightarrow> (string \<rightharpoonup> string) \<times> error option"
  facadeClearApplicationResources :: "call list \<Rightarrow> string \<Rightarrow> error option"
  facadeUpdateUnits :: "call list \<Rightarrow> UpdateApplicationUnits \<Rightarrow> ApplicationUnitInfo list option \<times> error option"
  facadeWatchProvisioningInfo :: "call list \<Rightarrow> string \<Rightarrow> error option"
  unitFacadeApplicationScale :: "call list \<Rightarrow> string \<Rightarrow> int \<times> error option"
  unitFacadeApplicationTrust :: "call list \<Rightarrow> string \<Rightarrow> bool \<times> error option"
  unitFacadeUpdateApplicationService :: "call list \<Rightarrow> UpdateApplicationServiceArg \<Rightarrow> error option"
  appScale :: "call list \<Rightarrow> int \<Rightarrow> error option"
  appState :: "call list \<Rightarrow> ApplicationState \<times> error option"
  appUnitsToRemove :: "call list \<Rightarrow> int \<Rightarrow> string list \<times> error option"
  appTrust :: "call list \<Rightarrow> bool \<Rightarrow> error option"
  appExists :: "call list \<Rightarrow> DeploymentState \<times> error option"
  appEnsure :: "call list \<Rightarrow> ApplicationConfig \<Rightarrow> error option"
  appDelete :: "call list \<Rightarrow> error option"
  appService :: "call list \<Rightarrow> Service option \<times> error option"
  appUnits :: "call list \<Rightarrow> Unit list \<times> error option"
  appWatch :: "call list \<Rightarrow> error option"
  appWatchReplicas :: "call list \<Rightarrow> error option"
  brokerAnnotateUnit :: "call list \<Rightarrow> string \<Rightarrow> string \<Rightarrow> tag \<Rightarrow> error option"
  catacombAdd :: "call list \<Rightarrow> watcher \<Rightarrow> error option"
  clockNow :: "call list \<Rightarrow> int"
  imageForBase :: "string \<Rightarrow> Base \<Rightarrow> string \<times> error option"
  parseUnitTag :: "string \<Rightarrow> tag \<times> error option"

subsection \<open>The worker state\<close>

text \<open>
  The fields of \<^verbatim>\<open>appWorker\<close> that change or are read, and the calls made so
  far. The handles of the collaborators are the environment.
\<close>

record appWorker =
  name :: string
  password :: string
  lastApplied :: ApplicationConfig
  life :: life
  ps :: CAASApplicationProvisioningState
  calls :: "call list"

text \<open>
  \<open>invoke c f a\<close> makes the collaborator call \<open>c\<close>: the answer \<open>f\<close> is read at
  the calls made so far, and the call is recorded.
\<close>

definition invoke :: "call \<Rightarrow> (call list \<Rightarrow> 'r) \<Rightarrow> appWorker \<Rightarrow> 'r \<times> appWorker" where
  "invoke c f a = (f (calls a), a\<lparr>calls := calls a @ [c]\<rparr>)"

text \<open>\<^verbatim>\<open>a.clock.After(d)\<close>: a timer is created.\<close>

definition after :: "int \<Rightarrow> appWorker \<Rightarrow> appWorker" where
  "after d a = a\<lparr>calls := calls a @ [ClockAfter d]\<rparr>"

definition second :: int where
  "second = 1000000000"

definition minute :: int where
  "minute = 60 * second"

subsection \<open>updateProvisioningState\<close>

definition updateProvisioningState ::
  "env \<Rightarrow> bool \<Rightarrow> int \<Rightarrow> appWorker \<Rightarrow> error option \<times> appWorker" where
  "updateProvisioningState env scaling scaleTarget a =
     (let newPs = \<lparr>Scaling = scaling, ScaleTarget = scaleTarget\<rparr> in
      case invoke (FacadeSetProvisioningState (name a) scaling scaleTarget)
             (\<lambda>h. facadeSetProvisioningState env h (name a) newPs) a of
        (Some err, a1) \<Rightarrow>
          if isCodeTryAgain err then (Some tryAgain, a1)
          else (Some (Wrap (''setting provisiong state for application '' @ quote (name a)) err), a1)
      | (None, a1) \<Rightarrow> (None, a1\<lparr>ps := newPs\<rparr>))"

subsection \<open>reconcileDeadUnitScale\<close>

text \<open>The loop that collects the units whose life is \<open>Dead\<close> (lines 920 to 929).\<close>

fun deadUnitsOf ::
  "env \<Rightarrow> CAASUnit list \<Rightarrow> CAASUnit list \<Rightarrow> appWorker \<Rightarrow> (CAASUnit list \<times> error option) \<times> appWorker" where
  "deadUnitsOf env [] deadUnits a = ((deadUnits, None), a)"
| "deadUnitsOf env (unit # rest) deadUnits a =
     (case invoke (FacadeLife (tagId (Tag unit))) (\<lambda>h. facadeLife env h (tagId (Tag unit))) a of
        ((unitLife, Some err), a1) \<Rightarrow>
          ((deadUnits, Some (Wrap (''getting life for unit '' @ quote (tagString (Tag unit))) err)), a1)
      | ((unitLife, None), a1) \<Rightarrow>
          deadUnitsOf env rest (if unitLife = Dead then deadUnits @ [unit] else deadUnits) a1)"

text \<open>The loop that removes the dead units (lines 960 to 965).\<close>

fun removeDeadUnits :: "env \<Rightarrow> CAASUnit list \<Rightarrow> appWorker \<Rightarrow> error option \<times> appWorker" where
  "removeDeadUnits env [] a = (None, a)"
| "removeDeadUnits env (deadUnit # rest) a =
     (case invoke (FacadeRemoveUnit (tagId (Tag deadUnit)))
             (\<lambda>h. facadeRemoveUnit env h (tagId (Tag deadUnit))) a of
        (Some err, a1) \<Rightarrow>
          if \<not> isNotFound err
          then (Some (Wrap (''removing dead unit '' @ quote (tagId (Tag deadUnit))) err), a1)
          else removeDeadUnits env rest a1
      | (None, a1) \<Rightarrow> removeDeadUnits env rest a1)"

text \<open>
  The value of the variable \<^verbatim>\<open>unitsToRemove\<close> when it is compared with the
  number of dead units (lines 918 and 931 to 933).
\<close>

definition unitsToRemove :: "CAASUnit list \<Rightarrow> int \<Rightarrow> CAASUnit list \<Rightarrow> int" where
  "unitsToRemove units desiredScale deadUnits =
     (let n = int (length units) - desiredScale in
      if n \<le> 0 then int (length deadUnits) else n)"

text \<open>The part of the function after the threshold test (lines 941 to 967).\<close>

definition scaleAndRemove ::
  "env \<Rightarrow> int \<Rightarrow> CAASUnit list \<Rightarrow> appWorker \<Rightarrow> error option \<times> appWorker" where
  "scaleAndRemove env desiredScale deadUnits a =
     (case invoke (AppScale desiredScale) (\<lambda>h. appScale env h desiredScale) a of
        (scaleErr, a1) \<Rightarrow>
          if scaleErr \<noteq> None \<and> \<not> isNotFound (the scaleErr)
          then (Some (Wrap (''scaling application '' @ quote (name a) @ '' to scale '' @ showInt desiredScale)
                        (the scaleErr)), a1)
          else
            (case invoke AppState (\<lambda>h. appState env h) a1 of
               ((st, stateErr), a2) \<Rightarrow>
                 if stateErr \<noteq> None \<and> \<not> isNotFound (the stateErr) then (stateErr, a2)
                 else if int (length (Replicas st)) > desiredScale then (Some tryAgain, a2)
                 else
                   (case removeDeadUnits env deadUnits a2 of
                      (Some err, a3) \<Rightarrow> (Some err, a3)
                    | (None, a3) \<Rightarrow> updateProvisioningState env False 0 a3)))"

definition reconcileDeadUnitScale :: "env \<Rightarrow> appWorker \<Rightarrow> error option \<times> appWorker" where
  "reconcileDeadUnitScale env a =
     (case invoke (FacadeUnits (name a)) (\<lambda>h. facadeUnits env h (name a)) a of
        ((units, Some err), a1) \<Rightarrow>
          (Some (Wrap (''getting units for application '' @ name a) err), a1)
      | ((units, None), a1) \<Rightarrow>
          if \<not> Scaling (ps a1) then (None, a1)
          else
            let desiredScale = ScaleTarget (ps a1) in
            (case deadUnitsOf env units [] a1 of
               ((deadUnits, Some err), a2) \<Rightarrow> (Some err, a2)
             | ((deadUnits, None), a2) \<Rightarrow>
                 if unitsToRemove units desiredScale deadUnits \<noteq> int (length deadUnits)
                 then (None, a2)
                 else scaleAndRemove env desiredScale deadUnits a2))"

subsection \<open>setApplicationStatus\<close>

text \<open>The \<^verbatim>\<open>data\<close> argument is \<^verbatim>\<open>nil\<close> at every call site and is left out.\<close>

definition setApplicationStatus ::
  "env \<Rightarrow> status \<Rightarrow> string \<Rightarrow> appWorker \<Rightarrow> error option \<times> appWorker" where
  "setApplicationStatus env s reason a =
     invoke (FacadeSetOperatorStatus (name a) s reason)
       (\<lambda>h. facadeSetOperatorStatus env h (name a) s reason) a"

subsection \<open>refreshApplicationStatus\<close>

text \<open>The loop counting the units whose agent status is active (lines 636 to 641).\<close>

fun readyUnitsCount :: "CAASUnit list \<Rightarrow> int" where
  "readyUnitsCount [] = 0"
| "readyUnitsCount (unit # rest) =
     (if AgentStatus unit = statusActive then 1 else 0) + readyUnitsCount rest"

definition refreshApplicationStatus ::
  "env \<Rightarrow> life \<Rightarrow> appWorker \<Rightarrow> error option \<times> appWorker" where
  "refreshApplicationStatus env appLife a =
     (if appLife \<noteq> Alive then (None, a)
      else
        case invoke AppState (\<lambda>h. appState env h) a of
          ((st, Some err), a1) \<Rightarrow>
            if isNotFound err then (None, a1) else (Some err, a1)
        | ((st, None), a1) \<Rightarrow>
            (case invoke (FacadeUnits (name a)) (\<lambda>h. facadeUnits env h (name a)) a1 of
               ((units, Some err), a2) \<Rightarrow>
                 if isNotFound err then (None, a2) else (Some err, a2)
             | ((units, None), a2) \<Rightarrow>
                 if DesiredReplicas st > 0 \<and> DesiredReplicas st > readyUnitsCount units
                 then setApplicationStatus env statusWaiting ''waiting for units to settle down'' a2
                 else setApplicationStatus env statusActive [] a2))"

subsection \<open>ensureScale\<close>

text \<open>
  The desired scale (lines 652 to 664). \<^verbatim>\<open>errors.NotImplementedf\<close> appends
  " not implemented" to its message.
\<close>

definition desiredScaleOf :: "env \<Rightarrow> appWorker \<Rightarrow> (error + int) \<times> appWorker" where
  "desiredScaleOf env a =
     (case life a of
        Alive \<Rightarrow>
          (case invoke (UnitFacadeApplicationScale (name a))
                  (\<lambda>h. unitFacadeApplicationScale env h (name a)) a of
             ((desiredScale, Some err), a1) \<Rightarrow>
               (Inl (Wrap (''fetching application '' @ quote (name a) @ '' desired scale'') err), a1)
           | ((desiredScale, None), a1) \<Rightarrow> (Inr desiredScale, a1))
      | Dying \<Rightarrow> (Inr 0, a)
      | Dead \<Rightarrow> (Inr 0, a)
      | OtherLife s \<Rightarrow>
          (Inl (Err NotImplemented (''unknown life '' @ quote s @ '' not implemented'')), a))"

text \<open>The scale-down path (lines 687 to 708).\<close>

definition scaleDown :: "env \<Rightarrow> int \<Rightarrow> appWorker \<Rightarrow> error option \<times> appWorker" where
  "scaleDown env desiredScale a =
     (case invoke (AppUnitsToRemove (ScaleTarget (ps a)))
             (\<lambda>h. appUnitsToRemove env h (ScaleTarget (ps a))) a of
        ((unitsToDestroy, Some err), a1) \<Rightarrow>
          if isNotFound err then (None, a1)
          else (Some (Wrap (''scaling application '' @ quote (name a) @ '' to desired scale ''
                             @ showInt (ScaleTarget (ps a))) err), a1)
      | ((unitsToDestroy, None), a1) \<Rightarrow>
          (case (if length unitsToDestroy > 0
                 then invoke (FacadeDestroyUnits unitsToDestroy)
                        (\<lambda>h. facadeDestroyUnits env h unitsToDestroy) a1
                 else (None, a1)) of
             (Some err, a2) \<Rightarrow> (Some err, a2)
           | (None, a2) \<Rightarrow>
               if ScaleTarget (ps a2) \<noteq> desiredScale then (Some tryAgain, a2)
               else (None, a2)))"

text \<open>The part after the desired scale is known (lines 667 to 708).\<close>

definition scaleTo :: "env \<Rightarrow> int \<Rightarrow> appWorker \<Rightarrow> error option \<times> appWorker" where
  "scaleTo env desiredScale a =
     (case (if \<not> Scaling (ps a) \<or> life a \<noteq> Alive
            then updateProvisioningState env True desiredScale a
            else (None, a)) of
        (Some err, a1) \<Rightarrow> (Some err, a1)
      | (None, a1) \<Rightarrow>
          (case invoke (FacadeUnits (name a1)) (\<lambda>h. facadeUnits env h (name a1)) a1 of
             ((units, Some err), a2) \<Rightarrow> (Some err, a2)
           | ((units, None), a2) \<Rightarrow>
               if ScaleTarget (ps a2) \<ge> int (length units)
               then
                 (case invoke (AppScale (ScaleTarget (ps a2)))
                         (\<lambda>h. appScale env h (ScaleTarget (ps a2))) a2 of
                    (Some err, a3) \<Rightarrow> (Some err, a3)
                  | (None, a3) \<Rightarrow> updateProvisioningState env False 0 a3)
               else scaleDown env desiredScale a2))"

definition ensureScale :: "env \<Rightarrow> appWorker \<Rightarrow> error option \<times> appWorker" where
  "ensureScale env a =
     (case desiredScaleOf env a of
        (Inl err, a1) \<Rightarrow> (Some err, a1)
      | (Inr desiredScale, a1) \<Rightarrow> scaleTo env desiredScale a1)"

subsection \<open>ensureTrust\<close>

definition showBool :: "bool \<Rightarrow> string" where
  "showBool b = (if b then ''true'' else ''false'')"

definition ensureTrust :: "env \<Rightarrow> appWorker \<Rightarrow> error option \<times> appWorker" where
  "ensureTrust env a =
     (case invoke (UnitFacadeApplicationTrust (name a))
             (\<lambda>h. unitFacadeApplicationTrust env h (name a)) a of
        ((desiredTrust, Some err), a1) \<Rightarrow>
          (Some (Wrap (''fetching application '' @ quote (name a) @ '' desired trust'') err), a1)
      | ((desiredTrust, None), a1) \<Rightarrow>
          (case invoke (AppTrust desiredTrust) (\<lambda>h. appTrust env h desiredTrust) a1 of
             (Some err, a2) \<Rightarrow>
               (Some (Wrap (''updating application '' @ quote (name a) @ '' to desired trust ''
                             @ showBool desiredTrust) err), a2)
           | (None, a2) \<Rightarrow> (None, a2)))"

subsection \<open>waitForTerminated\<close>

text \<open>The closure \<^verbatim>\<open>existsFunc\<close> (lines 876 to 888).\<close>

definition existsFunc :: "env \<Rightarrow> appWorker \<Rightarrow> error option \<times> appWorker" where
  "existsFunc env a =
     (case invoke AppExists (\<lambda>h. appExists env h) a of
        ((st, Some err), a1) \<Rightarrow> (Some err, a1)
      | ((st, None), a1) \<Rightarrow>
          if \<not> Exists st then (None, a1)
          else if Exists st \<and> \<not> Terminating st
          then (Some (Err OtherError (''application '' @ quote (name a)
                        @ '' should be terminating but is now running'')), a1)
          else (Some tryAgain, a1))"

text \<open>
  Modelled from the spec: \<^verbatim>\<open>retry.Call\<close> of the library \<^verbatim>\<open>juju/retry\<close> is
  not among the sources. The spec gives a bounded retry: a number of attempts,
  a fixed delay between two attempts and a cap on the whole duration. The
  function is called; success and a fatal error end the retry at once; after
  another error the retry gives up when that was the last attempt or when
  waiting once more would pass the cap, and otherwise waits for the delay and
  calls again. \<open>retryCall \<dots> m\<close> has \<open>m\<close> attempts left after the current one.
\<close>

primrec retryCall ::
  "env \<Rightarrow> (appWorker \<Rightarrow> error option \<times> appWorker) \<Rightarrow> (error \<Rightarrow> bool) \<Rightarrow> int \<Rightarrow> int \<Rightarrow> int
     \<Rightarrow> nat \<Rightarrow> appWorker \<Rightarrow> error option \<times> appWorker" where
  "retryCall env func isFatal delay maxDuration start 0 a =
     (case func a of
        (None, a1) \<Rightarrow> (None, a1)
      | (Some err, a1) \<Rightarrow>
          if isFatal err then (Some err, a1)
          else (Some (Err OtherError (''attempt count exceeded: '' @ errorString err)), a1))"
| "retryCall env func isFatal delay maxDuration start (Suc m) a =
     (case func a of
        (None, a1) \<Rightarrow> (None, a1)
      | (Some err, a1) \<Rightarrow>
          if isFatal err then (Some err, a1)
          else
            (case invoke ClockNow (\<lambda>h. clockNow env h) a1 of
               (now, a2) \<Rightarrow>
                 if now - start + delay > maxDuration
                 then (Some (Err OtherError (''max duration exceeded: '' @ errorString err)), a2)
                 else retryCall env func isFatal delay maxDuration start m (after delay a2)))"

definition waitForTerminated :: "env \<Rightarrow> appWorker \<Rightarrow> error option \<times> appWorker" where
  "waitForTerminated env a =
     (case invoke ClockNow (\<lambda>h. clockNow env h) a of
        (start, a1) \<Rightarrow>
          retryCall env (existsFunc env) (\<lambda>err. \<not> isTryAgain err)
            (3 * second) (3 * minute) start 59 a1)"

subsection \<open>alive\<close>

text \<open>\<^verbatim>\<open>strings.Join\<close>.\<close>

fun join :: "string list \<Rightarrow> string \<Rightarrow> string" where
  "join [] sep = []"
| "join [x] sep = x"
| "join (x # y # rest) sep = x @ sep @ join (y # rest) sep"

text \<open>The inner loop over the mounts of a container (lines 787 to 792).\<close>

fun appendMounts :: "MountConfig list option \<Rightarrow> CharmMount list \<Rightarrow> MountConfig list option" where
  "appendMounts mounts [] = mounts"
| "appendMounts mounts (m # rest) =
     appendMounts
       (Some ((case mounts of None \<Rightarrow> [] | Some ms \<Rightarrow> ms)
              @ [\<lparr>StorageName = Storage m, Path = Location m\<rparr>])) rest"

text \<open>
  The loop over the containers of the charm (lines 775 to 794);
  \<^verbatim>\<open>errors.NotValidf\<close> appends " not valid" to its message and
  \<^verbatim>\<open>errors.NotFoundf\<close> " not found".
\<close>

fun buildContainers ::
  "(string \<rightharpoonup> string) \<Rightarrow> (string \<times> CharmContainer) list \<Rightarrow> (string \<rightharpoonup> ContainerConfig)
     \<Rightarrow> error + (string \<rightharpoonup> ContainerConfig)" where
  "buildContainers images [] containers = Inr containers"
| "buildContainers images ((k, v) # rest) containers =
     (if Resource v = [] then Inl (Err NotValid ''empty container resource reference not valid'')
      else
        case images (Resource v) of
          None \<Rightarrow>
            Inl (Err NotFound (''referenced charm base image resource '' @ Resource v @ '' not found''))
        | Some img \<Rightarrow>
            buildContainers images rest
              (containers(k \<mapsto> \<lparr>Name = k, Image = img, Mounts = appendMounts None (charmMounts v)\<rparr>)))"

text \<open>
  The first part of \<^verbatim>\<open>alive\<close> (lines 733 to 813): everything is read and the
  configuration is put together. The result is the configuration and the
  state of the application on the substrate.
\<close>

definition aliveConfig ::
  "env \<Rightarrow> appWorker \<Rightarrow> (error + ApplicationConfig \<times> DeploymentState) \<times> appWorker" where
  "aliveConfig env a =
     (case invoke (FacadeProvisioningInfo (name a)) (\<lambda>h. facadeProvisioningInfo env h (name a)) a of
        ((provisionInfo, Some err), a1) \<Rightarrow> (Inl (Wrap ''retrieving provisioning info'' err), a1)
      | ((provisionInfo, None), a1) \<Rightarrow>
     (case provCharmURL provisionInfo of
        None \<Rightarrow> (Inl (Err OtherError ''missing charm url in provision info''), a1)
      | Some charmURL \<Rightarrow>
     (case invoke (FacadeCharmInfo charmURL) (\<lambda>h. facadeCharmInfo env h charmURL) a1 of
        ((charmContainers, Some err), a2) \<Rightarrow>
          (Inl (Wrap (''retrieving charm deployment info for '' @ quote (name a)) err), a2)
      | ((charmContainers, None), a2) \<Rightarrow>
     (case invoke AppExists (\<lambda>h. appExists env h) a2 of
        ((existsState, Some err), a3) \<Rightarrow>
          (Inl (Wrap (''retrieving application state for '' @ quote (name a)) err), a3)
      | ((existsState, None), a3) \<Rightarrow>
     (case (if Exists existsState \<and> Terminating existsState then waitForTerminated env a3 else (None, a3)) of
        (Some err, a4) \<Rightarrow>
          (Inl (Wrap (quote (name a) @ '' was terminating and there was an error waiting for it to stop'') err), a4)
      | (None, a4) \<Rightarrow>
     (case invoke (FacadeApplicationOCIResources (name a))
             (\<lambda>h. facadeApplicationOCIResources env h (name a)) a4 of
        ((images, Some err), a5) \<Rightarrow> (Inl (Wrap ''getting OCI image resources'' err), a5)
      | ((images, None), a5) \<Rightarrow>
     (case imageForBase env (provRepository provisionInfo) (provBase provisionInfo) of
        (charmBaseImage, Some err) \<Rightarrow> (Inl (Wrap ''getting image for base'' err), a5)
      | (charmBaseImage, None) \<Rightarrow>
     (case buildContainers images charmContainers Map.empty of
        Inl err \<Rightarrow> (Inl err, a5)
      | Inr containers \<Rightarrow>
          (Inr (\<lparr>IsPrivateImageRepo = provIsPrivate provisionInfo,
                 IntroductionSecret = password a,
                 AgentVersion = provVersion provisionInfo,
                 AgentImagePath = provRegistryPath provisionInfo,
                 ControllerAddresses = join (provAPIAddresses provisionInfo) '','',
                 ControllerCertBundle = provCACert provisionInfo,
                 ResourceTags = provTags provisionInfo,
                 Constraints = provConstraints provisionInfo,
                 Filesystems = provFilesystems provisionInfo,
                 Devices = provDevices provisionInfo,
                 CharmBaseImagePath = charmBaseImage,
                 Containers = Some containers,
                 CharmModifiedVersion = provCharmModifiedVersion provisionInfo,
                 Trust = provTrust provisionInfo,
                 InitialScale = provScale provisionInfo\<rparr>, existsState), a5)))))))))"

text \<open>
  The second part (lines 814 to 828). The result of \<^verbatim>\<open>setApplicationStatus\<close> is
  dropped by the code. The variable \<^verbatim>\<open>reason\<close> is only logged.
\<close>

definition aliveEnsure ::
  "env \<Rightarrow> ApplicationConfig \<Rightarrow> appWorker \<Rightarrow> error option \<times> appWorker" where
  "aliveEnsure env config a =
     (if config \<noteq> lastApplied a then
        case invoke (AppEnsure config) (\<lambda>h. appEnsure env h config) a of
          (Some err, a1) \<Rightarrow>
            (case setApplicationStatus env statusError (errorString err) a1 of
               (ignored, a2) \<Rightarrow> (Some (Wrap (''ensuring application '' @ quote (name a)) err), a2))
        | (None, a1) \<Rightarrow> (None, a1\<lparr>lastApplied := config\<rparr>)
      else (None, a))"

definition alive :: "env \<Rightarrow> appWorker \<Rightarrow> error option \<times> appWorker" where
  "alive env a =
     (case aliveConfig env a of
        (Inl err, a1) \<Rightarrow> (Some err, a1)
      | (Inr (config, existsState), a1) \<Rightarrow> aliveEnsure env config a1)"


subsection \<open>updateState\<close>

definition filesystemParams :: "FilesystemInfo \<Rightarrow> KubernetesFilesystemInfo" where
  "filesystemParams info =
     \<lparr>kfStorageName = fsStorageName info,
      kfFilesystemId = fsFilesystemId info,
      kfSize = fsSize info,
      kfMountPoint = fsMountPoint info,
      kfReadOnly = fsReadOnly info,
      kfStatus = infoStatus (fsStatus info),
      kfInfo = infoMessage (fsStatus info),
      kfData = infoData (fsStatus info),
      kfVolume =
        \<lparr>kvVolumeId = volVolumeId (fsVolume info),
         kvSize = volSize (fsVolume info),
         kvPersistent = volPersistent (fsVolume info),
         kvStatus = infoStatus (volStatus (fsVolume info)),
         kvInfo = infoMessage (volStatus (fsVolume info)),
         kvData = infoData (volStatus (fsVolume info))\<rparr>\<rparr>"

text \<open>
  The loop over the units of the substrate (lines 534 to 588): the statuses
  to remember and the parameters to send. A unit whose status was reported
  before is sent with the status unknown.
\<close>

fun unitUpdates ::
  "(string \<rightharpoonup> StatusInfo) \<Rightarrow> Unit list \<Rightarrow> (string \<rightharpoonup> StatusInfo) \<Rightarrow> ApplicationUnitParams list
     \<Rightarrow> (string \<rightharpoonup> StatusInfo) \<times> ApplicationUnitParams list" where
  "unitUpdates lastReportedStatus [] reportedStatus params = (reportedStatus, params)"
| "unitUpdates lastReportedStatus (u # rest) reportedStatus params =
     (if unitDying u then unitUpdates lastReportedStatus rest reportedStatus params
      else
        let sent =
              (case lastReportedStatus (unitId u) of
                 Some lastStatus \<Rightarrow>
                   if lastStatus = unitStatus u
                   then \<lparr>infoStatus = statusUnknown, infoMessage = [], infoData = [], infoSince = None\<rparr>
                   else unitStatus u
               | None \<Rightarrow> unitStatus u);
            unitParams =
              \<lparr>upProviderId = unitId u,
               upAddress = unitAddress u,
               upPorts = unitPorts u,
               upStateful = unitStateful u,
               upStatus = infoStatus sent,
               upInfo = infoMessage sent,
               upData = infoData sent,
               upFilesystemInfo = map filesystemParams (unitFilesystemInfo u)\<rparr>
        in unitUpdates lastReportedStatus rest
             (reportedStatus(unitId u \<mapsto> unitStatus u)) (params @ [unitParams]))"

text \<open>
  The loop over the units the facade acknowledged (lines 601 to 612). The
  deployment mode passed to \<^verbatim>\<open>AnnotateUnit\<close> is always \<^verbatim>\<open>caas.ModeSidecar\<close>.
\<close>

fun annotateUnits :: "env \<Rightarrow> ApplicationUnitInfo list \<Rightarrow> appWorker \<Rightarrow> error option \<times> appWorker" where
  "annotateUnits env [] a = (None, a)"
| "annotateUnits env (unitInfo # rest) a =
     (case parseUnitTag env (uiUnitTag unitInfo) of
        (unit, Some err) \<Rightarrow> (Some err, a)
      | (unit, None) \<Rightarrow>
          (case invoke (BrokerAnnotateUnit (name a) (uiProviderId unitInfo) unit)
                  (\<lambda>h. brokerAnnotateUnit env h (name a) (uiProviderId unitInfo) unit) a of
             (Some err, a1) \<Rightarrow>
               if isNotFound err then annotateUnits env rest a1 else (Some err, a1)
           | (None, a1) \<Rightarrow> annotateUnits env rest a1))"

text \<open>The service of the application (lines 500 to 522): the status to report.\<close>

definition updateService :: "env \<Rightarrow> appWorker \<Rightarrow> (EntityStatus \<times> error option) \<times> appWorker" where
  "updateService env a =
     (let appStatus = \<lparr>entityStatus = [], entityInfo = [], entityData = []\<rparr> in
      case invoke AppService (\<lambda>h. appService env h) a of
        ((svc, err), a1) \<Rightarrow>
          if err \<noteq> None \<and> \<not> isNotFound (the err) then ((appStatus, err), a1)
          else
            (case svc of
               None \<Rightarrow> ((appStatus, None), a1)
             | Some s \<Rightarrow>
                 let appStatus' =
                       \<lparr>entityStatus = infoStatus (serviceStatus s),
                        entityInfo = infoMessage (serviceStatus s),
                        entityData = infoData (serviceStatus s)\<rparr>;
                     arg = \<lparr>argApplicationTag = ''application-'' @ name a,
                            argProviderId = serviceId s,
                            argAddresses = serviceAddresses s\<rparr>
                 in
                 (case invoke (UnitFacadeUpdateApplicationService arg)
                         (\<lambda>h. unitFacadeUpdateApplicationService env h arg) a1 of
                    (Some err2, a2) \<Rightarrow>
                      if isNotFound err2 then ((appStatus', None), a2)
                      else ((appStatus', Some err2), a2)
                  | (None, a2) \<Rightarrow> ((appStatus', None), a2))))"

text \<open>
  A \<^verbatim>\<open>nil\<close> map of statuses reads like the empty map, and is the empty map
  here.
\<close>

definition updateState ::
  "env \<Rightarrow> (string \<rightharpoonup> StatusInfo) \<Rightarrow> appWorker
     \<Rightarrow> ((string \<rightharpoonup> StatusInfo) \<times> error option) \<times> appWorker" where
  "updateState env lastReportedStatus a =
     (case updateService env a of
        ((appStatus, Some err), a1) \<Rightarrow> ((Map.empty, Some err), a1)
      | ((appStatus, None), a1) \<Rightarrow>
     (case invoke AppUnits (\<lambda>h. appUnits env h) a1 of
        ((units, Some err), a2) \<Rightarrow> ((Map.empty, Some err), a2)
      | ((units, None), a2) \<Rightarrow>
     (case unitUpdates lastReportedStatus units Map.empty [] of
        (reportedStatus, unitParams) \<Rightarrow>
     (let args = \<lparr>uuApplicationTag = ''application-'' @ name a,
                  uuStatus = appStatus,
                  uuUnits = unitParams\<rparr> in
      case invoke (FacadeUpdateUnits args) (\<lambda>h. facadeUpdateUnits env h args) a2 of
        ((appUnitInfo, err), a3) \<Rightarrow>
          if err \<noteq> None \<and> \<not> isForbidden (the err) \<and> \<not> isNotFound (the err)
          then ((Map.empty, err), a3)
          else
            (case appUnitInfo of
               None \<Rightarrow> ((reportedStatus, None), a3)
             | Some infos \<Rightarrow>
                 (case annotateUnits env infos a3 of
                    (Some err2, a4) \<Rightarrow> ((Map.empty, Some err2), a4)
                  | (None, a4) \<Rightarrow> ((reportedStatus, None), a4)))))))"

subsection \<open>dying and dead\<close>

definition dying :: "env \<Rightarrow> appWorker \<Rightarrow> error option \<times> appWorker" where
  "dying env a =
     (case ensureScale env a of
        (Some err, a1) \<Rightarrow> (Some (Wrap ''cannot scale dying application to 0'' err), a1)
      | (None, a1) \<Rightarrow>
          (case reconcileDeadUnitScale env a1 of
             (Some err, a2) \<Rightarrow>
               (Some (Wrap ''cannot reconcile dead units in dying application'' err), a2)
           | (None, a2) \<Rightarrow> (None, a2)))"

definition dead :: "env \<Rightarrow> appWorker \<Rightarrow> error option \<times> appWorker" where
  "dead env a =
     (case dying env a of
        (Some err, a1) \<Rightarrow> (Some err, a1)
      | (None, a1) \<Rightarrow>
     (case invoke AppDelete (\<lambda>h. appDelete env h) a1 of
        (Some err, a2) \<Rightarrow> (Some err, a2)
      | (None, a2) \<Rightarrow>
     (case waitForTerminated env a2 of
        (Some err, a3) \<Rightarrow> (Some err, a3)
      | (None, a3) \<Rightarrow>
     (case invoke (FacadeClearApplicationResources (name a))
             (\<lambda>h. facadeClearApplicationResources env h (name a)) a3 of
        (Some err, a4) \<Rightarrow> (Some err, a4)
      | (None, a4) \<Rightarrow>
     (case updateState env Map.empty a4 of
        ((reported, Some err), a5) \<Rightarrow> (Some err, a5)
      | ((reported, None), a5) \<Rightarrow> (None, a5))))))"


subsection \<open>The event loop\<close>

text \<open>
  The variables of \<^verbatim>\<open>loop\<close> that the \<^verbatim>\<open>for\<close> statement reads and writes
  (lines 201 to 204, 231 and 240 to 248). A timer channel is \<open>None\<close>
  when it is \<^verbatim>\<open>nil\<close> and \<open>Some d\<close> when it was made by
  \<^verbatim>\<open>a.clock.After(d)\<close>; the channel of a watcher that is started on demand is
  a flag telling whether it is set. The variable \<^verbatim>\<open>done\<close> is \<open>done'\<close>.
\<close>

record loopState =
  worker :: appWorker
  appLife :: life
  initial :: bool
  done' :: bool
  scaleChan :: "int option"
  scaleTries :: int
  trustChan :: "int option"
  trustTries :: int
  reconcileDeadChan :: "int option"
  stateAppChangedChan :: "int option"
  appChanges :: bool
  appProvisionChanges :: bool
  replicaChanges :: bool
  lastReportedStatus :: "string \<rightharpoonup> StatusInfo"

definition maxRetries :: int where
  "maxRetries = 20"

definition retryDelay :: int where
  "retryDelay = 3 * second"

text \<open>
  The cases of the \<^verbatim>\<open>select\<close> statement. A watcher event carries the flag
  \<^verbatim>\<open>ok\<close> of the receive: \<open>False\<close> when the channel was closed.
\<close>

datatype event =
    ScaleWatcherChange bool
  | ScaleTimer
  | TrustWatcherChange bool
  | UnitsWatcherChange bool
  | ReconcileDeadTimer
  | TrustTimer
  | CatacombDying
  | AppProvisionChange
  | Notified
  | StateAppChangedTimer
  | AppChange
  | ReplicaChange
  | Heartbeat

text \<open>A receive from a \<^verbatim>\<open>nil\<close> channel is never selected.\<close>

fun enabled :: "event \<Rightarrow> loopState \<Rightarrow> bool" where
  "enabled ScaleTimer st = (scaleChan st \<noteq> None)"
| "enabled TrustTimer st = (trustChan st \<noteq> None)"
| "enabled ReconcileDeadTimer st = (reconcileDeadChan st \<noteq> None)"
| "enabled StateAppChangedTimer st = (stateAppChangedChan st \<noteq> None)"
| "enabled AppProvisionChange st = appProvisionChanges st"
| "enabled AppChange st = appChanges st"
| "enabled ReplicaChange st = replicaChanges st"
| "enabled ev st = True"

text \<open>Starting a watcher and adding it to the catacomb.\<close>

definition startWatcher ::
  "env \<Rightarrow> call \<Rightarrow> (call list \<Rightarrow> error option) \<Rightarrow> string \<Rightarrow> watcher \<Rightarrow> appWorker
     \<Rightarrow> error option \<times> appWorker" where
  "startWatcher env c f context w a =
     (case invoke c f a of
        (Some err, a1) \<Rightarrow> (Some (Wrap context err), a1)
      | (None, a1) \<Rightarrow> invoke (CatacombAdd w) (\<lambda>h. catacombAdd env h w) a1)"

text \<open>The case \<^verbatim>\<open>life.Alive\<close> of \<^verbatim>\<open>handleChange\<close> (lines 269 to 303).\<close>

definition handleAlive :: "env \<Rightarrow> loopState \<Rightarrow> error option \<times> loopState" where
  "handleAlive env st =
     (let a = worker st in
      case (if \<not> appProvisionChanges st
            then startWatcher env (FacadeWatchProvisioningInfo (name a))
                   (\<lambda>h. facadeWatchProvisioningInfo env h (name a))
                   (''failed to watch facade for changes to application provisioning '' @ quote (name a))
                   ProvisionWatcher a
            else (None, a)) of
        (Some err, a1) \<Rightarrow> (Some err, st\<lparr>worker := a1\<rparr>)
      | (None, a1) \<Rightarrow>
     (let st1 = st\<lparr>worker := a1, appProvisionChanges := True\<rparr> in
      case alive env a1 of
        (Some err, a2) \<Rightarrow> (Some err, st1\<lparr>worker := a2\<rparr>)
      | (None, a2) \<Rightarrow>
     (case (if \<not> appChanges st1
            then startWatcher env AppWatch (\<lambda>h. appWatch env h)
                   (''failed to watch for changes to application '' @ quote (name a))
                   AppWatcher a2
            else (None, a2)) of
        (Some err, a3) \<Rightarrow> (Some err, st1\<lparr>worker := a3\<rparr>)
      | (None, a3) \<Rightarrow>
     (let st2 = st1\<lparr>worker := a3, appChanges := True\<rparr> in
      case (if \<not> replicaChanges st2
            then startWatcher env AppWatchReplicas (\<lambda>h. appWatchReplicas env h)
                   (''failed to watch for changes to replicas '' @ quote (name a))
                   ReplicaWatcher a3
            else (None, a3)) of
        (Some err, a4) \<Rightarrow> (Some err, st2\<lparr>worker := a4\<rparr>)
      | (None, a4) \<Rightarrow> (None, st2\<lparr>worker := a4, replicaChanges := True\<rparr>)))))"

text \<open>
  The closure \<^verbatim>\<open>handleChange\<close> (lines 254 to 320). The assignment
  \<^verbatim>\<open>appLife, err = a.facade.Life(a.name)\<close> stores the life also when the call
  fails.
\<close>

definition handleChange :: "env \<Rightarrow> loopState \<Rightarrow> error option \<times> loopState" where
  "handleChange env st =
     (case invoke (FacadeLife (name (worker st))) (\<lambda>h. facadeLife env h (name (worker st))) (worker st) of
        ((l, err), a1) \<Rightarrow>
          if err \<noteq> None \<and> \<not> isNotFound (the err)
          then (err, st\<lparr>worker := a1, appLife := l\<rparr>)
          else
            let l' = (if err \<noteq> None then Dead else l);
                a2 = a1\<lparr>life := l'\<rparr>;
                st1 = st\<lparr>worker := a2, appLife := l'\<rparr>;
                st2 = (if initial st1 \<and> Scaling (ps a2)
                       then st1\<lparr>worker := after 0 (after 0 a2), initial := False,
                                scaleChan := Some 0, reconcileDeadChan := Some 0\<rparr>
                       else st1)
            in
            (case l' of
               Alive \<Rightarrow> handleAlive env st2
             | Dying \<Rightarrow>
                 (case dying env (worker st2) of
                    (r, a3) \<Rightarrow> (r, st2\<lparr>worker := a3\<rparr>))
             | Dead \<Rightarrow>
                 (case dead env (worker st2) of
                    (Some err3, a3) \<Rightarrow> (Some err3, st2\<lparr>worker := a3\<rparr>)
                  | (None, a3) \<Rightarrow> (None, st2\<lparr>worker := a3, done' := True\<rparr>))
             | OtherLife s \<Rightarrow>
                 (Some (Err NotImplemented (''unknown life '' @ quote s @ '' not implemented'')), st2)))"

text \<open>
  What a case of the \<^verbatim>\<open>select\<close> statement does: it returns from \<^verbatim>\<open>loop\<close>
  with a result, which ends the worker, or goes on to the end of the loop
  body with the flag \<^verbatim>\<open>shouldRefresh\<close>.
\<close>

datatype dispatched = Return "error option" | Proceed bool

definition onScaleTimer :: "env \<Rightarrow> loopState \<Rightarrow> dispatched \<times> loopState" where
  "onScaleTimer env st =
     (case ensureScale env (worker st) of
        (Some err, a1) \<Rightarrow>
          if isNotFound err then
            if scaleTries st \<ge> maxRetries
            then (Return (Some (Wrap (''more than '' @ showInt maxRetries @ '' retries ensuring scale'') err)),
                  st\<lparr>worker := a1\<rparr>)
            else (Proceed False,
                  st\<lparr>worker := after retryDelay a1, scaleTries := scaleTries st + 1,
                      scaleChan := Some retryDelay\<rparr>)
          else if isTryAgain err
          then (Proceed True, st\<lparr>worker := after retryDelay a1, scaleChan := Some retryDelay\<rparr>)
          else (Return (Some err), st\<lparr>worker := a1\<rparr>)
      | (None, a1) \<Rightarrow> (Proceed True, st\<lparr>worker := a1, scaleChan := None\<rparr>))"

definition onReconcileDeadTimer :: "env \<Rightarrow> loopState \<Rightarrow> dispatched \<times> loopState" where
  "onReconcileDeadTimer env st =
     (case reconcileDeadUnitScale env (worker st) of
        (Some err, a1) \<Rightarrow>
          if isNotFound err
          then (Proceed True, st\<lparr>worker := after retryDelay a1, reconcileDeadChan := Some retryDelay\<rparr>)
          else if isTryAgain err
          then (Proceed True, st\<lparr>worker := after retryDelay a1, reconcileDeadChan := Some retryDelay\<rparr>)
          else (Return (Some (Wrap ''reconciling dead unit scale'' err)), st\<lparr>worker := a1\<rparr>)
      | (None, a1) \<Rightarrow> (Proceed True, st\<lparr>worker := a1, reconcileDeadChan := None\<rparr>))"

definition onTrustTimer :: "env \<Rightarrow> loopState \<Rightarrow> dispatched \<times> loopState" where
  "onTrustTimer env st =
     (case ensureTrust env (worker st) of
        (Some err, a1) \<Rightarrow>
          if isNotFound err then
            if trustTries st \<ge> maxRetries
            then (Return (Some (Wrap (''more than '' @ showInt maxRetries @ '' retries ensuring trust'') err)),
                  st\<lparr>worker := a1\<rparr>)
            else (Proceed False,
                  st\<lparr>worker := after retryDelay a1, trustTries := trustTries st + 1,
                      trustChan := Some retryDelay\<rparr>)
          else (Return (Some err), st\<lparr>worker := a1\<rparr>)
      | (None, a1) \<Rightarrow> (Proceed True, st\<lparr>worker := a1, trustChan := None\<rparr>))"

definition onStateAppChangedTimer :: "env \<Rightarrow> loopState \<Rightarrow> dispatched \<times> loopState" where
  "onStateAppChangedTimer env st =
     (case handleChange env st of
        (Some err, st1) \<Rightarrow>
          if isTryAgain err
          then (Proceed True,
                st1\<lparr>worker := after retryDelay (worker st1), stateAppChangedChan := Some retryDelay\<rparr>)
          else (Return (Some err), st1)
      | (None, st1) \<Rightarrow> (Proceed True, st1\<lparr>stateAppChangedChan := None\<rparr>))"

definition onAppChange :: "env \<Rightarrow> loopState \<Rightarrow> dispatched \<times> loopState" where
  "onAppChange env st =
     (case updateState env (lastReportedStatus st) (worker st) of
        ((reported, Some err), a1) \<Rightarrow>
          (Return (Some err), st\<lparr>worker := a1, lastReportedStatus := reported\<rparr>)
      | ((reported, None), a1) \<Rightarrow>
          (Proceed True, st\<lparr>worker := a1, lastReportedStatus := reported\<rparr>))"

text \<open>
  The \<^verbatim>\<open>select\<close> statement (lines 324 to 425). \<^verbatim>\<open>catacomb.ErrDying()\<close> is
  the error "tomb: dying".
\<close>

fun dispatch :: "env \<Rightarrow> event \<Rightarrow> loopState \<Rightarrow> dispatched \<times> loopState" where
  "dispatch env (ScaleWatcherChange ok) st =
     (if \<not> ok
      then (Return (Some (Err OtherError (''application '' @ quote (name (worker st))
                            @ '' scale watcher closed channel''))), st)
      else (Proceed False,
            if scaleChan st = None
            then st\<lparr>worker := after 0 (worker st), scaleTries := 0, scaleChan := Some 0\<rparr>
            else st))"
| "dispatch env ScaleTimer st = onScaleTimer env st"
| "dispatch env (TrustWatcherChange ok) st =
     (if \<not> ok
      then (Return (Some (Err OtherError (''application '' @ quote (name (worker st))
                            @ '' trust watcher closed channel''))), st)
      else (Proceed False,
            if trustChan st = None
            then st\<lparr>worker := after 0 (worker st), trustTries := 0, trustChan := Some 0\<rparr>
            else st))"
| "dispatch env (UnitsWatcherChange ok) st =
     (if \<not> ok
      then (Return (Some (Err OtherError (''application '' @ quote (name (worker st))
                            @ '' units watcher closed channel''))), st)
      else (Proceed True,
            if reconcileDeadChan st = None
            then st\<lparr>worker := after 0 (worker st), reconcileDeadChan := Some 0\<rparr>
            else st))"
| "dispatch env ReconcileDeadTimer st = onReconcileDeadTimer env st"
| "dispatch env TrustTimer st = onTrustTimer env st"
| "dispatch env CatacombDying st = (Return (Some (Err OtherError ''tomb: dying'')), st)"
| "dispatch env AppProvisionChange st =
     (Proceed True,
      if stateAppChangedChan st = None
      then st\<lparr>worker := after 0 (worker st), stateAppChangedChan := Some 0\<rparr>
      else st)"
| "dispatch env Notified st =
     (Proceed True,
      if stateAppChangedChan st = None
      then st\<lparr>worker := after 0 (worker st), stateAppChangedChan := Some 0\<rparr>
      else st)"
| "dispatch env StateAppChangedTimer st = onStateAppChangedTimer env st"
| "dispatch env AppChange st = onAppChange env st"
| "dispatch env ReplicaChange st = onAppChange env st"
| "dispatch env Heartbeat st = (Proceed True, st)"

text \<open>
  One pass through the body of the \<^verbatim>\<open>for\<close> statement (lines 322 to 434), for
  the event the \<^verbatim>\<open>select\<close> statement takes. On entry the timer of the
  heartbeat is made. The result is \<open>None\<close> when the event cannot be taken in
  this state; otherwise the loop goes on, or the worker ends with a result.
\<close>

datatype outcome = Continue loopState | Exit "error option" loopState

definition loopStep :: "env \<Rightarrow> event \<Rightarrow> loopState \<Rightarrow> outcome option" where
  "loopStep env ev st =
     (if \<not> enabled ev st then None
      else
        case dispatch env ev (st\<lparr>worker := after (10 * second) (worker st)\<rparr>) of
          (Return r, st1) \<Rightarrow> Some (Exit r st1)
        | (Proceed shouldRefresh, st1) \<Rightarrow>
            if done' st1 then Some (Exit None st1)
            else if shouldRefresh then
              (case refreshApplicationStatus env (appLife st1) (worker st1) of
                 (Some err, a2) \<Rightarrow>
                   Some (Exit (Some (Wrap (''refreshing application status for '' @ quote (name (worker st1))) err))
                           (st1\<lparr>worker := a2\<rparr>))
               | (None, a2) \<Rightarrow> Some (Continue (st1\<lparr>worker := a2\<rparr>)))
            else Some (Continue st1))"

text \<open>
  The loop, for a sequence of events: the result is \<open>None\<close> when some event
  could not be taken or came after the worker had ended.
\<close>

fun runLoop :: "env \<Rightarrow> event list \<Rightarrow> loopState \<Rightarrow> outcome option" where
  "runLoop env [] st = Some (Continue st)"
| "runLoop env (ev # rest) st =
     (case loopStep env ev st of
        None \<Rightarrow> None
      | Some (Exit r st1) \<Rightarrow> (if rest = [] then Some (Exit r st1) else None)
      | Some (Continue st1) \<Rightarrow> runLoop env rest st1)"

text \<open>
  The variables as they are when the \<^verbatim>\<open>for\<close> statement is entered (lines 201
  to 248), for a worker \<open>a\<close> and the life read at the start of \<^verbatim>\<open>loop\<close>.
\<close>

definition initialLoopState :: "appWorker \<Rightarrow> loopState" where
  "initialLoopState a =
     \<lparr>worker = a, appLife = life a, initial = True, done' = False,
      scaleChan = None, scaleTries = 0, trustChan = None, trustTries = 0,
      reconcileDeadChan = None, stateAppChangedChan = None,
      appChanges = False, appProvisionChanges = False, replicaChanges = False,
      lastReportedStatus = Map.empty\<rparr>"


subsection \<open>Example environments\<close>

text \<open>
  An environment in which every collaborator succeeds and has nothing to
  report, and a worker for the application "app". The examples below change
  single answers of this environment.
\<close>

definition quietInfo :: ProvisioningInfo where
  "quietInfo =
     \<lparr>provVersion = ''3.1.0'', provAPIAddresses = [''10.0.0.1:17070''], provCACert = [],
      provTags = None, provConstraints = [], provFilesystems = None, provDevices = None,
      provBase = \<lparr>baseName = ''ubuntu'', baseTrack = ''22.04'', baseRisk = ''stable''\<rparr>,
      provRepository = ''jujusolutions'', provRegistryPath = ''jujusolutions/jujud-operator'',
      provIsPrivate = False, provCharmModifiedVersion = 0,
      provCharmURL = Some ''ch:app-1'', provTrust = False, provScale = 1\<rparr>"

definition quietEnv :: env where
  "quietEnv =
     \<lparr>facadeUnits = (\<lambda>h n. ([], None)),
      facadeLife = (\<lambda>h n. (Alive, None)),
      facadeSetProvisioningState = (\<lambda>h n p. None),
      facadeRemoveUnit = (\<lambda>h n. None),
      facadeDestroyUnits = (\<lambda>h ns. None),
      facadeSetOperatorStatus = (\<lambda>h n s r. None),
      facadeProvisioningInfo = (\<lambda>h n. (quietInfo, None)),
      facadeCharmInfo = (\<lambda>h u. ([], None)),
      facadeApplicationOCIResources = (\<lambda>h n. (Map.empty, None)),
      facadeClearApplicationResources = (\<lambda>h n. None),
      facadeUpdateUnits = (\<lambda>h args. (None, None)),
      facadeWatchProvisioningInfo = (\<lambda>h n. None),
      unitFacadeApplicationScale = (\<lambda>h n. (0, None)),
      unitFacadeApplicationTrust = (\<lambda>h n. (False, None)),
      unitFacadeUpdateApplicationService = (\<lambda>h arg. None),
      appScale = (\<lambda>h n. None),
      appState = (\<lambda>h. (\<lparr>DesiredReplicas = 0, Replicas = []\<rparr>, None)),
      appUnitsToRemove = (\<lambda>h n. ([], None)),
      appTrust = (\<lambda>h b. None),
      appExists = (\<lambda>h. (\<lparr>Exists = False, Terminating = False\<rparr>, None)),
      appEnsure = (\<lambda>h c. None),
      appDelete = (\<lambda>h. None),
      appService = (\<lambda>h. (None, None)),
      appUnits = (\<lambda>h. ([], None)),
      appWatch = (\<lambda>h. None),
      appWatchReplicas = (\<lambda>h. None),
      brokerAnnotateUnit = (\<lambda>h n p t. None),
      catacombAdd = (\<lambda>h w. None),
      clockNow = (\<lambda>h. 0),
      imageForBase = (\<lambda>r b. (''jujusolutions/charm-base:ubuntu-22.04'', None)),
      parseUnitTag = (\<lambda>s. (\<lparr>tagId = s, tagString = s\<rparr>, None))\<rparr>"

definition quietWorker :: appWorker where
  "quietWorker =
     \<lparr>name = ''app'', password = ''secret'', lastApplied = zeroApplicationConfig,
      life = Alive, ps = \<lparr>Scaling = False, ScaleTarget = 0\<rparr>, calls = []\<rparr>"

text \<open>The unit number \<open>i\<close> of the application "app", with the given agent status.\<close>

definition unitOf :: "string \<Rightarrow> string \<Rightarrow> CAASUnit" where
  "unitOf i s = \<lparr>Tag = \<lparr>tagId = ''app/'' @ i, tagString = ''unit-app-'' @ i\<rparr>, AgentStatus = s\<rparr>"


text \<open>
  Three units "app/0", "app/1" and "app/2". In \<open>oneDeadEnv\<close> the last one is
  dead and the substrate reports two replicas; in \<open>twoDeadEnv\<close> the first two
  are dead. \<open>scalingTo t\<close> is a worker that is scaling to \<open>t\<close> units.
\<close>

definition threeUnits :: "CAASUnit list" where
  "threeUnits = [unitOf ''0'' ''active'', unitOf ''1'' ''active'', unitOf ''2'' ''active'']"

definition oneDeadEnv :: env where
  "oneDeadEnv =
     quietEnv
       \<lparr>facadeUnits := (\<lambda>h n. (threeUnits, None)),
        facadeLife := (\<lambda>h n. (if n = ''app/2'' then Dead else Alive, None)),
        appState := (\<lambda>h. (\<lparr>DesiredReplicas = 2, Replicas = [''app-0'', ''app-1'']\<rparr>, None))\<rparr>"


definition scalingTo :: "int \<Rightarrow> appWorker" where
  "scalingTo t = quietWorker\<lparr>ps := \<lparr>Scaling = True, ScaleTarget = t\<rparr>\<rparr>"

text \<open>
  As \<open>oneDeadEnv\<close>, but the substrate does not find the application when it is
  scaled and the facade does not find the unit that is removed.
\<close>

definition notFoundEnv :: env where
  "notFoundEnv =
     oneDeadEnv
       \<lparr>appScale := (\<lambda>h n. Some (Err NotFound ''statefulset app not found'')),
        facadeRemoveUnit := (\<lambda>h n. Some (Err NotFound ''unit not found''))\<rparr>"

text \<open>
  The environment in which the not-found errors of \<^verbatim>\<open>Scale\<close> and of
  \<^verbatim>\<open>RemoveUnit\<close> are answered as successes instead.
\<close>

definition notFoundAsSuccess :: "env \<Rightarrow> env" where
  "notFoundAsSuccess env =
     env\<lparr>appScale :=
           (\<lambda>h n. case appScale env h n of
                     None \<Rightarrow> None
                   | Some err \<Rightarrow> if isNotFound err then None else Some err),
         facadeRemoveUnit :=
           (\<lambda>h n. case facadeRemoveUnit env h n of
                     None \<Rightarrow> None
                   | Some err \<Rightarrow> if isNotFound err then None else Some err)\<rparr>"



subsection \<open>Notions used in the properties\<close>

text \<open>The calls that change the substrate.\<close>

fun substrateMutation :: "call \<Rightarrow> bool" where
  "substrateMutation (AppScale n) = True"
| "substrateMutation (AppTrust b) = True"
| "substrateMutation (AppEnsure config) = True"
| "substrateMutation AppDelete = True"
| "substrateMutation (BrokerAnnotateUnit n p t) = True"
| "substrateMutation c = False"

text \<open>
  \<open>addsCalls P a a'\<close>: the worker state \<open>a'\<close> is \<open>a\<close> after further calls,
  all of which satisfy \<open>P\<close>, and nothing else has changed.
\<close>

definition addsCalls :: "(call \<Rightarrow> bool) \<Rightarrow> appWorker \<Rightarrow> appWorker \<Rightarrow> bool" where
  "addsCalls P a a' = (\<exists>cs. a' = a\<lparr>calls := calls a @ cs\<rparr> \<and> list_all P cs)"

text \<open>
  The configuration that \<open>alive\<close> builds for \<open>quietWorker\<close> in \<open>quietEnv\<close>, and
  an environment in which the substrate refuses it.
\<close>

definition quietConfig :: ApplicationConfig where
  "quietConfig =
     \<lparr>IsPrivateImageRepo = False, IntroductionSecret = ''secret'', AgentVersion = ''3.1.0'',
      AgentImagePath = ''jujusolutions/jujud-operator'', ControllerAddresses = ''10.0.0.1:17070'',
      ControllerCertBundle = [], ResourceTags = None, Constraints = [], Filesystems = None,
      Devices = None, CharmBaseImagePath = ''jujusolutions/charm-base:ubuntu-22.04'',
      Containers = Some Map.empty, CharmModifiedVersion = 0, Trust = False, InitialScale = 1\<rparr>"

definition ensureFailsEnv :: env where
  "ensureFailsEnv = quietEnv\<lparr>appEnsure := (\<lambda>h c. Some (Err OtherError ''quota exceeded''))\<rparr>"





text \<open>The variables of the loop when a pass through its body has ended.\<close>

fun outcomeState :: "outcome \<Rightarrow> loopState" where
  "outcomeState (Continue st) = st"
| "outcomeState (Exit r st) = st"

text \<open>The attempt counters are within their bounds.\<close>

definition triesBounded :: "loopState \<Rightarrow> bool" where
  "triesBounded st =
     (0 \<le> scaleTries st \<and> scaleTries st \<le> 20 \<and> 0 \<le> trustTries st \<and> trustTries st \<le> 20)"

text \<open>
  The unit facade does not find the application, and the loop with the scale
  timer and the trust timer made.
\<close>

definition missingEnv :: env where
  "missingEnv =
     quietEnv
       \<lparr>unitFacadeApplicationScale := (\<lambda>h n. (0, Some (Err NotFound ''application app not found''))),
        unitFacadeApplicationTrust := (\<lambda>h n. (False, Some (Err NotFound ''application app not found'')))\<rparr>"

definition armedLoop :: "appWorker \<Rightarrow> loopState" where
  "armedLoop a = (initialLoopState a)\<lparr>scaleChan := Some 0, trustChan := Some 0\<rparr>"




section \<open>Properties\<close>


subsection \<open>reconcileDeadUnitScale when no scaling is in progress\<close>

text \<open>
  Claim C9. When \<open>provisioning.scaling\<close> is false, \<open>reconcileDeadUnitScale\<close>
  reads the units and returns: the only collaborator call is the read of the
  units, so the substrate is not scaled and no unit is removed, the worker
  state (the provisioning state in it) is unchanged, and the result is \<open>nil\<close>
  when the read succeeded.
\<close>

theorem reconcileDeadUnitScale_not_scaling:
  assumes "\<not> Scaling (ps a)" and "reconcileDeadUnitScale env a = (r, a')"
  shows "a' = a\<lparr>calls := calls a @ [FacadeUnits (name a)]\<rparr>
         \<and> (snd (facadeUnits env (calls a) (name a)) = None \<longrightarrow> r = None)"
  using assms
  by (auto simp: reconcileDeadUnitScale_def invoke_def split: prod.splits option.splits)

theorem reconcileDeadUnitScale_not_scaling_witness:
  "\<not> Scaling (ps quietWorker)
   \<and> reconcileDeadUnitScale quietEnv quietWorker = (None, quietWorker\<lparr>calls := [FacadeUnits ''app'']\<rparr>)"
proof -
  have h1: "\<not> Scaling (ps quietWorker)" by (simp add: quietWorker_def)
  obtain r a' where h2: "reconcileDeadUnitScale quietEnv quietWorker = (r, a')"
    by (cases "reconcileDeadUnitScale quietEnv quietWorker")
  from reconcileDeadUnitScale_not_scaling [OF h1 h2]
  show ?thesis using h1 h2 by (simp add: quietWorker_def quietEnv_def)
qed

subsection \<open>refreshApplicationStatus\<close>





subsection \<open>reconcileDeadUnitScale while scaling\<close>


lemma deadUnitsOf_calls:
  "deadUnitsOf env us ds a = ((ds', None), a')
   \<Longrightarrow> a' = a\<lparr>calls := calls a @ map (\<lambda>u. FacadeLife (tagId (Tag u))) us\<rparr>"
proof (induction us arbitrary: ds a)
  case Nil
  then show ?case by auto
next
  case (Cons u us)
  show ?case
  proof (cases "facadeLife env (calls a) (tagId (Tag u))")
    case (Pair l err)
    show ?thesis
    proof (cases err)
      case None
      with Pair Cons.prems
      have "deadUnitsOf env us (if l = Dead then ds @ [u] else ds)
              (a\<lparr>calls := calls a @ [FacadeLife (tagId (Tag u))]\<rparr>) = ((ds', None), a')"
        by (simp add: invoke_def)
      from Cons.IH [OF this] show ?thesis by simp
    next
      case (Some x)
      with Pair Cons.prems show ?thesis by (auto simp: invoke_def)
    qed
  qed
qed


lemma removeDeadUnits_frame:
  "removeDeadUnits env ds a = (r, a') \<Longrightarrow> \<exists>cs. a' = a\<lparr>calls := calls a @ cs\<rparr>"
proof (induction ds arbitrary: a)
  case Nil
  then show ?case by (auto intro: exI [of _ "[]"])
next
  case (Cons u us)
  show ?case
  proof (cases "removeDeadUnits env (u # us) a =
                removeDeadUnits env us (a\<lparr>calls := calls a @ [FacadeRemoveUnit (tagId (Tag u))]\<rparr>)")
    case True
    with Cons.prems Cons.IH [of "a\<lparr>calls := calls a @ [FacadeRemoveUnit (tagId (Tag u))]\<rparr>"]
    show ?thesis by auto
  next
    case False
    with Cons.prems show ?thesis
      by (auto simp: invoke_def split: option.splits if_splits)
  qed
qed

lemma removeDeadUnits_prefix:
  "removeDeadUnits env ds a = (r, a') \<Longrightarrow> \<exists>cs. calls a' = calls a @ cs"
  by (drule removeDeadUnits_frame) auto

lemma updateProvisioningState_calls:
  "updateProvisioningState env s t a = (r, a')
   \<Longrightarrow> calls a' = calls a @ [FacadeSetProvisioningState (name a) s t]"
  by (auto simp: updateProvisioningState_def invoke_def Let_def split: option.splits if_splits)







subsection \<open>Not-found errors inside reconcileDeadUnitScale\<close>

lemma notFoundAsSuccess_fields:
  "appScale (notFoundAsSuccess env) h n =
     (case appScale env h n of None \<Rightarrow> None
      | Some err \<Rightarrow> if isNotFound err then None else Some err)"
  "facadeRemoveUnit (notFoundAsSuccess env) h m =
     (case facadeRemoveUnit env h m of None \<Rightarrow> None
      | Some err \<Rightarrow> if isNotFound err then None else Some err)"
  "facadeUnits (notFoundAsSuccess env) = facadeUnits env"
  "facadeLife (notFoundAsSuccess env) = facadeLife env"
  "appState (notFoundAsSuccess env) = appState env"
  "facadeSetProvisioningState (notFoundAsSuccess env) = facadeSetProvisioningState env"
  by (simp_all add: notFoundAsSuccess_def)

lemma updateProvisioningState_notFoundAsSuccess:
  "updateProvisioningState (notFoundAsSuccess env) s t a = updateProvisioningState env s t a"
  by (simp add: updateProvisioningState_def notFoundAsSuccess_fields)

lemma deadUnitsOf_notFoundAsSuccess:
  "deadUnitsOf (notFoundAsSuccess env) us ds a = deadUnitsOf env us ds a"
proof (induction us arbitrary: ds a)
  case Nil
  show ?case by simp
next
  case (Cons u us)
  show ?case
    by (simp add: Cons.IH invoke_def notFoundAsSuccess_fields split: prod.splits option.splits)
qed

lemma removeDeadUnits_notFoundAsSuccess:
  "removeDeadUnits (notFoundAsSuccess env) ds a = removeDeadUnits env ds a"
proof (induction ds arbitrary: a)
  case Nil
  show ?case by simp
next
  case (Cons u us)
  show ?case
    by (cases "facadeRemoveUnit env (calls a) (tagId (Tag u))")
       (simp_all add: Cons.IH invoke_def notFoundAsSuccess_fields)
qed

lemma scaleAndRemove_notFoundAsSuccess:
  "scaleAndRemove (notFoundAsSuccess env) t ds a = scaleAndRemove env t ds a"
  unfolding scaleAndRemove_def removeDeadUnits_notFoundAsSuccess
    updateProvisioningState_notFoundAsSuccess invoke_def notFoundAsSuccess_fields
  by (cases "appScale env (calls a) t") simp_all

text \<open>
  Claim C10. A not-found error of the substrate \<^verbatim>\<open>Scale\<close> or of the facade
  \<^verbatim>\<open>RemoveUnit\<close> is treated as a success: \<open>reconcileDeadUnitScale\<close> gives
  the same result, makes the same calls and leaves the same state as in the
  environment where these calls succeed instead, so the scaling flag is
  cleared at the end exactly as after successes. After a not-found error of
  \<^verbatim>\<open>Scale\<close> the state of the substrate is read next, and after a not-found
  error of \<^verbatim>\<open>RemoveUnit\<close> the loop goes on with the next dead unit.
\<close>

theorem reconcileDeadUnitScale_notFound_suppressed:
  "reconcileDeadUnitScale (notFoundAsSuccess env) a = reconcileDeadUnitScale env a
   \<and> (appScale env (calls a) t = Some err \<and> isNotFound err
        \<longrightarrow> (\<exists>rest. calls (snd (scaleAndRemove env t ds a)) = calls a @ AppScale t # AppState # rest))
   \<and> (facadeRemoveUnit env (calls a) (tagId (Tag u)) = Some err \<and> isNotFound err
        \<longrightarrow> removeDeadUnits env (u # ds) a
              = removeDeadUnits env ds (a\<lparr>calls := calls a @ [FacadeRemoveUnit (tagId (Tag u))]\<rparr>))"
proof -
  have c1: "reconcileDeadUnitScale (notFoundAsSuccess env) a = reconcileDeadUnitScale env a"
    unfolding reconcileDeadUnitScale_def notFoundAsSuccess_fields deadUnitsOf_notFoundAsSuccess
      scaleAndRemove_notFoundAsSuccess ..
  have c2: "\<exists>rest. calls (snd (scaleAndRemove env t ds a)) = calls a @ AppScale t # AppState # rest"
    if h: "appScale env (calls a) t = Some err" "isNotFound err"
  proof -
    obtain r a' where sr: "scaleAndRemove env t ds a = (r, a')"
      by (cases "scaleAndRemove env t ds a")
    from sr h have "\<exists>rest. calls a' = calls a @ AppScale t # AppState # rest"
      by (auto simp: scaleAndRemove_def invoke_def split: prod.splits option.splits if_splits
             dest!: removeDeadUnits_prefix updateProvisioningState_calls)
    with sr show ?thesis by simp
  qed
  have c3: "removeDeadUnits env (u # ds) a
              = removeDeadUnits env ds (a\<lparr>calls := calls a @ [FacadeRemoveUnit (tagId (Tag u))]\<rparr>)"
    if "facadeRemoveUnit env (calls a) (tagId (Tag u)) = Some err" "isNotFound err"
    using that by (simp add: invoke_def)
  from c1 c2 c3 show ?thesis by blast
qed

theorem reconcileDeadUnitScale_notFound_suppressed_witness:
  "appScale notFoundEnv [] 2 = Some (Err NotFound ''statefulset app not found'')
   \<and> isNotFound (Err NotFound ''statefulset app not found'')
   \<and> reconcileDeadUnitScale notFoundEnv (scalingTo 2) =
       (None, (scalingTo 2)
          \<lparr>calls := [FacadeUnits ''app'', FacadeLife ''app/0'', FacadeLife ''app/1'', FacadeLife ''app/2'',
                     AppScale 2, AppState, FacadeRemoveUnit ''app/2'',
                     FacadeSetProvisioningState ''app'' False 0],
           ps := \<lparr>Scaling = False, ScaleTarget = 0\<rparr>\<rparr>)
   \<and> reconcileDeadUnitScale (notFoundAsSuccess notFoundEnv) (scalingTo 2)
       = reconcileDeadUnitScale notFoundEnv (scalingTo 2)"
  using reconcileDeadUnitScale_notFound_suppressed
          [of notFoundEnv "scalingTo 2" 2 "Err NotFound ''statefulset app not found''" "[]"
              "unitOf ''2'' ''active''"]
  by (simp add: quietEnv_def quietWorker_def unitOf_def threeUnits_def oneDeadEnv_def notFoundEnv_def scalingTo_def isNotFound_def reconcileDeadUnitScale_def scaleAndRemove_def
        updateProvisioningState_def unitsToRemove_def invoke_def Let_def)


subsection \<open>ensureScale\<close>






subsection \<open>Frames: what the reading parts leave unchanged\<close>

lemma addsCalls_refl: "addsCalls P a a"
  by (auto simp: addsCalls_def intro: exI [of _ "[]"])

lemma addsCalls_step: "addsCalls P a b \<Longrightarrow> P c \<Longrightarrow> addsCalls P a (b\<lparr>calls := calls b @ [c]\<rparr>)"
  unfolding addsCalls_def
proof (elim exE conjE)
  fix cs
  assume "b = a\<lparr>calls := calls a @ cs\<rparr>" "list_all P cs" "P c"
  then have "b\<lparr>calls := calls b @ [c]\<rparr> = a\<lparr>calls := calls a @ (cs @ [c])\<rparr> \<and> list_all P (cs @ [c])"
    by simp
  then show "\<exists>cs. b\<lparr>calls := calls b @ [c]\<rparr> = a\<lparr>calls := calls a @ cs\<rparr> \<and> list_all P cs" ..
qed

lemma addsCalls_trans: "addsCalls P a b \<Longrightarrow> addsCalls P b c \<Longrightarrow> addsCalls P a c"
  unfolding addsCalls_def
proof (elim exE conjE)
  fix cs ds
  assume "b = a\<lparr>calls := calls a @ cs\<rparr>" "list_all P cs" "c = b\<lparr>calls := calls b @ ds\<rparr>" "list_all P ds"
  then have "c = a\<lparr>calls := calls a @ (cs @ ds)\<rparr> \<and> list_all P (cs @ ds)"
    by simp
  then show "\<exists>cs. c = a\<lparr>calls := calls a @ cs\<rparr> \<and> list_all P cs" ..
qed

lemma addsCalls_fields:
  "addsCalls P a b \<Longrightarrow> name b = name a \<and> password b = password a \<and> lastApplied b = lastApplied a
     \<and> life b = life a \<and> ps b = ps a"
  by (auto simp: addsCalls_def)

lemma existsFunc_addsCalls:
  "existsFunc env a = (r, a') \<Longrightarrow> a' = a\<lparr>calls := calls a @ [AppExists]\<rparr>"
  by (auto simp: existsFunc_def invoke_def split: prod.splits option.splits if_splits)

lemma retryCall_addsCalls:
  assumes "\<And>a r a'. func a = (r, a') \<Longrightarrow> addsCalls P a a'" and "P ClockNow" and "P (ClockAfter delay)"
  shows "retryCall env func isFatal delay maxDuration start m a = (r, a') \<Longrightarrow> addsCalls P a a'"
proof (induction m arbitrary: a)
  case 0
  obtain r1 a1 where f: "func a = (r1, a1)" by (cases "func a")
  from assms(1) [OF f] have "addsCalls P a a1" .
  moreover from 0 f have "a' = a1" by (auto split: option.splits if_splits)
  ultimately show ?case by simp
next
  case (Suc m)
  obtain r1 a1 where f: "func a = (r1, a1)" by (cases "func a")
  from assms(1) [OF f] have a1: "addsCalls P a a1" .
  let ?a2 = "a1\<lparr>calls := calls a1 @ [ClockNow]\<rparr>"
  have a2: "addsCalls P a ?a2" using a1 assms(2) by (rule addsCalls_step)
  have a3: "addsCalls P a (after delay ?a2)"
    unfolding after_def using a2 assms(3) by (rule addsCalls_step)
  consider "a' = a1" | "a' = ?a2"
    | "retryCall env func isFatal delay maxDuration start m (after delay ?a2) = (r, a')"
    using Suc.prems f by (auto simp: invoke_def split: option.splits if_splits)
  then show ?case
  proof cases
    case 1
    with a1 show ?thesis by simp
  next
    case 2
    with a2 show ?thesis by simp
  next
    case 3
    from Suc.IH [OF 3] a3 show ?thesis by (blast intro: addsCalls_trans)
  qed
qed

lemma waitForTerminated_addsCalls:
  assumes "P AppExists" "P ClockNow" "P (ClockAfter (3 * second))"
  shows "waitForTerminated env a = (r, a') \<Longrightarrow> addsCalls P a a'"
proof -
  assume w: "waitForTerminated env a = (r, a')"
  let ?a1 = "a\<lparr>calls := calls a @ [ClockNow]\<rparr>"
  have f: "\<And>a r a'. existsFunc env a = (r, a') \<Longrightarrow> addsCalls P a a'"
    using assms(1) by (auto dest!: existsFunc_addsCalls intro: addsCalls_step addsCalls_refl)
  from w have "retryCall env (existsFunc env) (\<lambda>err. \<not> isTryAgain err) (3 * second) (3 * minute)
                 (clockNow env (calls a)) 59 ?a1 = (r, a')"
    by (simp add: waitForTerminated_def invoke_def)
  from retryCall_addsCalls [where P = P, OF f assms(2) assms(3) this]
  have "addsCalls P ?a1 a'" .
  moreover have "addsCalls P a ?a1" using addsCalls_refl assms(2) by (rule addsCalls_step)
  ultimately show ?thesis by (blast intro: addsCalls_trans)
qed

lemma addsCalls_append:
  "addsCalls P a b \<Longrightarrow> list_all P cs \<Longrightarrow> addsCalls P a (b\<lparr>calls := calls b @ cs\<rparr>)"
  unfolding addsCalls_def
proof (elim exE conjE)
  fix ds
  assume "b = a\<lparr>calls := calls a @ ds\<rparr>" "list_all P ds" "list_all P cs"
  then have "b\<lparr>calls := calls b @ cs\<rparr> = a\<lparr>calls := calls a @ (ds @ cs)\<rparr> \<and> list_all P (ds @ cs)"
    by simp
  then show "\<exists>es. b\<lparr>calls := calls b @ cs\<rparr> = a\<lparr>calls := calls a @ es\<rparr> \<and> list_all P es" ..
qed

lemma addsCalls_after:
  "addsCalls P (a\<lparr>calls := calls a @ cs\<rparr>) b \<Longrightarrow> list_all P cs \<Longrightarrow> addsCalls P a b"
  by (rule addsCalls_trans [OF addsCalls_append [OF addsCalls_refl]])

lemma aliveConfig_addsCalls:
  "aliveConfig env a = (x, a1) \<Longrightarrow> addsCalls (\<lambda>c. \<not> substrateMutation c) a a1"
  unfolding aliveConfig_def invoke_def
  by (auto split: prod.splits option.splits sum.splits if_splits
        intro!: addsCalls_append addsCalls_refl
        elim!: addsCalls_after
        dest!: waitForTerminated_addsCalls [where P = "\<lambda>c. \<not> substrateMutation c", rotated 3])


subsection \<open>alive\<close>

text \<open>
  Claim C4. In a run of \<open>alive\<close>, the calls made while the configuration is
  put together change nothing on the substrate and leave the worker state as
  it was. When that part fails, its error is the result. Otherwise the
  substrate \<^verbatim>\<open>Ensure\<close> is called if and only if the new configuration differs
  from \<open>lastApplied\<close>: when they are equal nothing more happens; when
  \<^verbatim>\<open>Ensure\<close> succeeds, \<open>lastApplied\<close> becomes the new configuration; when it
  fails, the status of the application is set to error with the message of
  the error, \<open>lastApplied\<close> stays as it was, and the error is returned.
\<close>

theorem alive_ensures_on_change:
  assumes run: "alive env a = (r, a')"
  shows "addsCalls (\<lambda>c. \<not> substrateMutation c) a (snd (aliveConfig env a))
    \<and> (case aliveConfig env a of
         (Inl err, a1) \<Rightarrow> r = Some err \<and> a' = a1
       | (Inr (config, existsState), a1) \<Rightarrow>
           if config = lastApplied a then r = None \<and> a' = a1
           else (case appEnsure env (calls a1) config of
                   None \<Rightarrow>
                     r = None
                     \<and> a' = a1\<lparr>calls := calls a1 @ [AppEnsure config], lastApplied := config\<rparr>
                 | Some err \<Rightarrow>
                     r = Some (Wrap (''ensuring application '' @ quote (name a)) err)
                     \<and> a' = a1\<lparr>calls := calls a1 @ [AppEnsure config,
                                  FacadeSetOperatorStatus (name a) statusError (errorString err)]\<rparr>))"
proof -
  obtain x a1 where ac: "aliveConfig env a = (x, a1)" by (cases "aliveConfig env a")
  from aliveConfig_addsCalls [OF ac] have fr: "addsCalls (\<lambda>c. \<not> substrateMutation c) a a1" .
  from addsCalls_fields [OF fr] have eq: "name a1 = name a" "lastApplied a1 = lastApplied a"
    by simp_all
  show ?thesis
  proof (cases x)
    case (Inl err)
    with run ac fr show ?thesis by (simp add: alive_def)
  next
    case (Inr p)
    obtain config existsState where p: "p = (config, existsState)" by (cases p)
    from run ac Inr p have ae: "aliveEnsure env config a1 = (r, a')" by (simp add: alive_def)
    show ?thesis
    proof (cases "config = lastApplied a")
      case True
      with ae eq ac Inr p fr show ?thesis by (simp add: aliveEnsure_def)
    next
      case False
      show ?thesis
      proof (cases "appEnsure env (calls a1) config")
        case None
        with ae eq ac Inr p fr False show ?thesis
          by (simp add: aliveEnsure_def invoke_def)
      next
        case (Some err)
        with ae eq ac Inr p fr False show ?thesis
          by (auto simp: aliveEnsure_def invoke_def setApplicationStatus_def)
      qed
    qed
  qed
qed

lemma quietConfig_built:
  "aliveConfig quietEnv (quietWorker\<lparr>lastApplied := c\<rparr>) =
     (Inr (quietConfig, \<lparr>Exists = False, Terminating = False\<rparr>),
      quietWorker\<lparr>lastApplied := c,
                  calls := [FacadeProvisioningInfo ''app'', FacadeCharmInfo ''ch:app-1'', AppExists,
                            FacadeApplicationOCIResources ''app'']\<rparr>)"
  by (simp add: quietEnv_def quietWorker_def quietInfo_def quietConfig_def aliveConfig_def invoke_def)

theorem alive_ensures_on_change_witness:
  "alive quietEnv quietWorker =
     (None, quietWorker
        \<lparr>calls := [FacadeProvisioningInfo ''app'', FacadeCharmInfo ''ch:app-1'', AppExists,
                   FacadeApplicationOCIResources ''app'', AppEnsure quietConfig],
         lastApplied := quietConfig\<rparr>)
   \<and> alive quietEnv (quietWorker\<lparr>lastApplied := quietConfig\<rparr>) =
     (None, quietWorker
        \<lparr>lastApplied := quietConfig,
         calls := [FacadeProvisioningInfo ''app'', FacadeCharmInfo ''ch:app-1'', AppExists,
                   FacadeApplicationOCIResources ''app'']\<rparr>)
   \<and> alive ensureFailsEnv quietWorker =
     (Some (Wrap (''ensuring application '' @ quote ''app'') (Err OtherError ''quota exceeded'')),
      quietWorker
        \<lparr>calls := [FacadeProvisioningInfo ''app'', FacadeCharmInfo ''ch:app-1'', AppExists,
                   FacadeApplicationOCIResources ''app'', AppEnsure quietConfig,
                   FacadeSetOperatorStatus ''app'' ''error'' ''quota exceeded'']\<rparr>)"
proof -
  have ne: "quietConfig \<noteq> lastApplied quietWorker"
    by (simp add: quietConfig_def quietWorker_def zeroApplicationConfig_def)
  have b: "aliveConfig quietEnv quietWorker =
     (Inr (quietConfig, \<lparr>Exists = False, Terminating = False\<rparr>),
      quietWorker\<lparr>calls := [FacadeProvisioningInfo ''app'', FacadeCharmInfo ''ch:app-1'', AppExists,
                            FacadeApplicationOCIResources ''app'']\<rparr>)"
    using quietConfig_built [of "lastApplied quietWorker"] by simp
  obtain r a' where h: "alive quietEnv quietWorker = (r, a')"
    by (cases "alive quietEnv quietWorker")
  obtain r2 a2 where h2: "alive quietEnv (quietWorker\<lparr>lastApplied := quietConfig\<rparr>) = (r2, a2)"
    by (cases "alive quietEnv (quietWorker\<lparr>lastApplied := quietConfig\<rparr>)")
  have e: "appEnsure quietEnv h c = None" for h c by (simp add: quietEnv_def)
  from alive_ensures_on_change [OF h] ne b e
  have 1: "r = None \<and> a' = quietWorker
        \<lparr>calls := [FacadeProvisioningInfo ''app'', FacadeCharmInfo ''ch:app-1'', AppExists,
                   FacadeApplicationOCIResources ''app'', AppEnsure quietConfig],
         lastApplied := quietConfig\<rparr>"
    by simp
  from alive_ensures_on_change [OF h2] quietConfig_built [of quietConfig]
  have 2: "r2 = None \<and> a2 = quietWorker
        \<lparr>lastApplied := quietConfig,
         calls := [FacadeProvisioningInfo ''app'', FacadeCharmInfo ''ch:app-1'', AppExists,
                   FacadeApplicationOCIResources ''app'']\<rparr>"
    by simp
  have b3: "aliveConfig ensureFailsEnv quietWorker =
     (Inr (quietConfig, \<lparr>Exists = False, Terminating = False\<rparr>),
      quietWorker\<lparr>calls := [FacadeProvisioningInfo ''app'', FacadeCharmInfo ''ch:app-1'', AppExists,
                            FacadeApplicationOCIResources ''app'']\<rparr>)"
    by (simp add: quietEnv_def quietWorker_def quietInfo_def ensureFailsEnv_def quietConfig_def aliveConfig_def invoke_def)
  obtain r3 a3 where h3: "alive ensureFailsEnv quietWorker = (r3, a3)"
    by (cases "alive ensureFailsEnv quietWorker")
  have e3: "appEnsure ensureFailsEnv h c = Some (Err OtherError ''quota exceeded'')" for h c
    by (simp add: quietEnv_def quietWorker_def quietInfo_def ensureFailsEnv_def)
  from alive_ensures_on_change [OF h3] ne b3 e3
  have 3: "r3 = Some (Wrap (''ensuring application '' @ quote ''app'') (Err OtherError ''quota exceeded''))
    \<and> a3 = quietWorker
        \<lparr>calls := [FacadeProvisioningInfo ''app'', FacadeCharmInfo ''ch:app-1'', AppExists,
                   FacadeApplicationOCIResources ''app'', AppEnsure quietConfig,
                   FacadeSetOperatorStatus ''app'' ''error'' ''quota exceeded'']\<rparr>"
    by (simp add: quietWorker_def statusError_def)
  from h h2 h3 1 2 3 show ?thesis by simp
qed


subsection \<open>waitForTerminated\<close>


















subsection \<open>dead\<close>




subsection \<open>The attempt counters of the event loop\<close>

lemma handleAlive_tries:
  "handleAlive env st = (r, st') \<Longrightarrow>
     scaleTries st' = scaleTries st \<and> trustTries st' = trustTries st \<and> done' st' = done' st"
  by (auto simp: handleAlive_def Let_def split: prod.splits option.splits if_splits)

lemma handleChange_tries:
  "handleChange env st = (r, st') \<Longrightarrow>
     scaleTries st' = scaleTries st \<and> trustTries st' = trustTries st
     \<and> (r \<noteq> None \<longrightarrow> done' st' = done' st)"
  unfolding handleChange_def Let_def
  by (auto split: prod.splits option.splits if_splits life.splits dest!: handleAlive_tries)

lemma dispatch_triesBounded:
  "dispatch env ev st = (d, st') \<Longrightarrow> triesBounded st \<Longrightarrow> triesBounded st'"
proof (cases ev)
  case StateAppChangedTimer
  assume "dispatch env ev st = (d, st')" "triesBounded st"
  with StateAppChangedTimer show ?thesis
    by (auto simp: onStateAppChangedTimer_def triesBounded_def
             split: prod.splits option.splits if_splits dest!: handleChange_tries)
qed (auto simp: triesBounded_def onScaleTimer_def onReconcileDeadTimer_def onTrustTimer_def
       onAppChange_def maxRetries_def
       split: prod.splits option.splits if_splits)

lemma loopStep_triesBounded:
  "loopStep env ev st = Some out \<Longrightarrow> triesBounded st \<Longrightarrow> triesBounded (outcomeState out)"
proof -
  assume s: "loopStep env ev st = Some out" and b: "triesBounded st"
  let ?st0 = "st\<lparr>worker := after (10 * second) (worker st)\<rparr>"
  obtain d st1 where d: "dispatch env ev ?st0 = (d, st1)" by (cases "dispatch env ev ?st0")
  from b have "triesBounded ?st0" by (simp add: triesBounded_def)
  from dispatch_triesBounded [OF d this] have b1: "triesBounded st1" .
  then have b2: "triesBounded (st1\<lparr>worker := w\<rparr>)" for w by (simp add: triesBounded_def)
  from s d b1 b2 show ?thesis
    by (auto simp: loopStep_def split: if_splits dispatched.splits prod.splits option.splits)
qed

lemma runLoop_triesBounded:
  "runLoop env evs st = Some out \<Longrightarrow> triesBounded st \<Longrightarrow> triesBounded (outcomeState out)"
proof (induction evs arbitrary: st)
  case Nil
  then show ?case by auto
next
  case (Cons ev evs)
  from Cons.prems(1) obtain o1 where o1: "loopStep env ev st = Some o1"
    by (auto split: option.splits)
  from loopStep_triesBounded [OF o1 Cons.prems(2)] have b1: "triesBounded (outcomeState o1)" .
  show ?case
  proof (cases o1)
    case (Continue st1)
    with Cons.prems(1) o1 have "runLoop env evs st1 = Some out" by simp
    from Cons.IH [OF this] b1 Continue show ?thesis by simp
  next
    case (Exit r st1)
    with Cons.prems(1) o1 have "out = o1" by (auto split: if_splits)
    with b1 show ?thesis by simp
  qed
qed


text \<open>
  Claim C7. When the scale timer fires and \<open>ensureScale\<close> returns a not-found
  error, the loop adds one to \<open>scaleTries\<close> and makes the timer again with a
  delay of 3 seconds, unless the counter has reached 20 already, in which
  case the worker ends with the error; the trust timer does the same with
  \<open>ensureTrust\<close> and \<open>trustTries\<close>. Whatever events the loop sees from its
  start, neither counter ever exceeds 20. A change of the scale watcher that
  finds the scale timer unset sets \<open>scaleTries\<close> to 0 and makes the timer with
  delay 0, and likewise for the trust watcher.
\<close>

theorem attempt_counters:
  "(scaleChan st \<noteq> None \<and> \<not> done' st
      \<and> ensureScale env (after (10 * second) (worker st)) = (Some err, a1) \<and> isNotFound err
    \<longrightarrow> loopStep env ScaleTimer st =
          (if scaleTries st \<ge> 20
           then Some (Exit (Some (Wrap (''more than '' @ showInt maxRetries @ '' retries ensuring scale'') err))
                        (st\<lparr>worker := a1\<rparr>))
           else Some (Continue (st\<lparr>worker := after (3 * second) a1,
                                   scaleTries := scaleTries st + 1,
                                   scaleChan := Some (3 * second)\<rparr>))))
   \<and> (trustChan st \<noteq> None \<and> \<not> done' st
      \<and> ensureTrust env (after (10 * second) (worker st)) = (Some err, a1) \<and> isNotFound err
    \<longrightarrow> loopStep env TrustTimer st =
          (if trustTries st \<ge> 20
           then Some (Exit (Some (Wrap (''more than '' @ showInt maxRetries @ '' retries ensuring trust'') err))
                        (st\<lparr>worker := a1\<rparr>))
           else Some (Continue (st\<lparr>worker := after (3 * second) a1,
                                   trustTries := trustTries st + 1,
                                   trustChan := Some (3 * second)\<rparr>))))
   \<and> (runLoop env evs (initialLoopState a) = Some out
    \<longrightarrow> scaleTries (outcomeState out) \<le> 20 \<and> trustTries (outcomeState out) \<le> 20)
   \<and> (scaleChan st = None \<and> \<not> done' st
    \<longrightarrow> loopStep env (ScaleWatcherChange True) st =
          Some (Continue (st\<lparr>worker := after 0 (after (10 * second) (worker st)),
                              scaleTries := 0, scaleChan := Some 0\<rparr>)))
   \<and> (trustChan st = None \<and> \<not> done' st
    \<longrightarrow> loopStep env (TrustWatcherChange True) st =
          Some (Continue (st\<lparr>worker := after 0 (after (10 * second) (worker st)),
                              trustTries := 0, trustChan := Some 0\<rparr>)))"
proof -
  have c1: "loopStep env ScaleTimer st =
          (if scaleTries st \<ge> 20
           then Some (Exit (Some (Wrap (''more than '' @ showInt maxRetries @ '' retries ensuring scale'') err))
                        (st\<lparr>worker := a1\<rparr>))
           else Some (Continue (st\<lparr>worker := after (3 * second) a1,
                                   scaleTries := scaleTries st + 1,
                                   scaleChan := Some (3 * second)\<rparr>)))"
    if "scaleChan st \<noteq> None" "\<not> done' st"
      "ensureScale env (after (10 * second) (worker st)) = (Some err, a1)" "isNotFound err"
    using that by (simp add: loopStep_def onScaleTimer_def maxRetries_def retryDelay_def)
  have c2: "loopStep env TrustTimer st =
          (if trustTries st \<ge> 20
           then Some (Exit (Some (Wrap (''more than '' @ showInt maxRetries @ '' retries ensuring trust'') err))
                        (st\<lparr>worker := a1\<rparr>))
           else Some (Continue (st\<lparr>worker := after (3 * second) a1,
                                   trustTries := trustTries st + 1,
                                   trustChan := Some (3 * second)\<rparr>)))"
    if "trustChan st \<noteq> None" "\<not> done' st"
      "ensureTrust env (after (10 * second) (worker st)) = (Some err, a1)" "isNotFound err"
    using that by (simp add: loopStep_def onTrustTimer_def maxRetries_def retryDelay_def)
  have c3: "scaleTries (outcomeState out) \<le> 20 \<and> trustTries (outcomeState out) \<le> 20"
    if "runLoop env evs (initialLoopState a) = Some out"
  proof -
    have "triesBounded (initialLoopState a)"
      by (simp add: triesBounded_def initialLoopState_def)
    from runLoop_triesBounded [OF that this] show ?thesis by (simp add: triesBounded_def)
  qed
  have c4: "loopStep env (ScaleWatcherChange True) st =
          Some (Continue (st\<lparr>worker := after 0 (after (10 * second) (worker st)),
                              scaleTries := 0, scaleChan := Some 0\<rparr>))"
    if "scaleChan st = None" "\<not> done' st"
    using that by (simp add: loopStep_def)
  have c5: "loopStep env (TrustWatcherChange True) st =
          Some (Continue (st\<lparr>worker := after 0 (after (10 * second) (worker st)),
                              trustTries := 0, trustChan := Some 0\<rparr>))"
    if "trustChan st = None" "\<not> done' st"
    using that by (simp add: loopStep_def)
  from c1 c2 c3 c4 c5 show ?thesis by blast
qed

theorem attempt_counters_witness:
  "loopStep missingEnv ScaleTimer (armedLoop quietWorker) =
     Some (Continue ((armedLoop quietWorker)
       \<lparr>worker := quietWorker\<lparr>calls := [ClockAfter 10000000000, UnitFacadeApplicationScale ''app'',
                                        ClockAfter 3000000000]\<rparr>,
        scaleTries := 1, scaleChan := Some 3000000000\<rparr>))
   \<and> (\<exists>e st. loopStep missingEnv ScaleTimer ((armedLoop quietWorker)\<lparr>scaleTries := 20\<rparr>)
               = Some (Exit (Some e) st) \<and> isNotFound e)
   \<and> (\<exists>e st. loopStep missingEnv TrustTimer ((armedLoop quietWorker)\<lparr>trustTries := 20\<rparr>)
               = Some (Exit (Some e) st) \<and> isNotFound e)
   \<and> runLoop missingEnv [ScaleWatcherChange True, ScaleTimer, ScaleTimer] (initialLoopState quietWorker)
       \<noteq> None
   \<and> loopStep missingEnv (ScaleWatcherChange True) ((initialLoopState quietWorker)\<lparr>scaleTries := 7\<rparr>) =
       Some (Continue ((initialLoopState quietWorker)
         \<lparr>worker := quietWorker\<lparr>calls := [ClockAfter 10000000000, ClockAfter 0]\<rparr>,
          scaleTries := 0, scaleChan := Some 0\<rparr>))"
proof -
  let ?e = "Err NotFound ''application app not found''"
  let ?es = "Wrap (''fetching application '' @ quote ''app'' @ '' desired scale'') ?e"
  let ?et = "Wrap (''fetching application '' @ quote ''app'' @ '' desired trust'') ?e"
  let ?w = "quietWorker\<lparr>calls := [ClockAfter 10000000000]\<rparr>"
  let ?a1 = "quietWorker\<lparr>calls := [ClockAfter 10000000000, UnitFacadeApplicationScale ''app'']\<rparr>"
  let ?a2 = "quietWorker\<lparr>calls := [ClockAfter 10000000000, UnitFacadeApplicationTrust ''app'']\<rparr>"
  have s: "ensureScale missingEnv (after (10 * second) (worker (armedLoop quietWorker\<lparr>scaleTries := n\<rparr>)))
             = (Some ?es, ?a1)" for n
    by (simp add: quietEnv_def quietWorker_def missingEnv_def armedLoop_def initialLoopState_def ensureScale_def desiredScaleOf_def invoke_def after_def second_def)
  have t: "ensureTrust missingEnv (after (10 * second) (worker (armedLoop quietWorker\<lparr>trustTries := n\<rparr>)))
             = (Some ?et, ?a2)" for n
    by (simp add: quietEnv_def quietWorker_def missingEnv_def armedLoop_def initialLoopState_def ensureTrust_def invoke_def after_def second_def)
  have nf: "isNotFound ?es" "isNotFound ?et" by (simp_all add: isNotFound_def)
  have 1: "loopStep missingEnv ScaleTimer (armedLoop quietWorker) =
     Some (Continue ((armedLoop quietWorker)
       \<lparr>worker := quietWorker\<lparr>calls := [ClockAfter 10000000000, UnitFacadeApplicationScale ''app'',
                                        ClockAfter 3000000000]\<rparr>,
        scaleTries := 1, scaleChan := Some 3000000000\<rparr>))"
    using attempt_counters [of "armedLoop quietWorker" missingEnv ?es ?a1] s [of 0] nf
    by (simp add: armedLoop_def initialLoopState_def after_def second_def)
  have 2: "\<exists>e st. loopStep missingEnv ScaleTimer ((armedLoop quietWorker)\<lparr>scaleTries := 20\<rparr>)
               = Some (Exit (Some e) st) \<and> isNotFound e"
    using attempt_counters [of "(armedLoop quietWorker)\<lparr>scaleTries := 20\<rparr>" missingEnv ?es ?a1] s [of 20] nf
    by (simp add: armedLoop_def initialLoopState_def isNotFound_def)
  have 3: "\<exists>e st. loopStep missingEnv TrustTimer ((armedLoop quietWorker)\<lparr>trustTries := 20\<rparr>)
               = Some (Exit (Some e) st) \<and> isNotFound e"
    using attempt_counters [of "(armedLoop quietWorker)\<lparr>trustTries := 20\<rparr>" missingEnv ?et ?a2] t [of 20] nf
    by (simp add: armedLoop_def initialLoopState_def isNotFound_def)
  have 4: "runLoop missingEnv [ScaleWatcherChange True, ScaleTimer, ScaleTimer] (initialLoopState quietWorker)
       \<noteq> None"
    by (simp add: quietEnv_def quietWorker_def missingEnv_def armedLoop_def initialLoopState_def loopStep_def onScaleTimer_def ensureScale_def desiredScaleOf_def
          invoke_def after_def isNotFound_def maxRetries_def)
  have 5: "loopStep missingEnv (ScaleWatcherChange True) ((initialLoopState quietWorker)\<lparr>scaleTries := 7\<rparr>) =
       Some (Continue ((initialLoopState quietWorker)
         \<lparr>worker := quietWorker\<lparr>calls := [ClockAfter 10000000000, ClockAfter 0]\<rparr>,
          scaleTries := 0, scaleChan := Some 0\<rparr>))"
    using attempt_counters [of "(initialLoopState quietWorker)\<lparr>scaleTries := 7\<rparr>" missingEnv]
    by (simp add: initialLoopState_def after_def second_def quietWorker_def)
  from 1 2 3 4 5 show ?thesis by blast
qed


subsection \<open>The error tryAgain in the event loop\<close>





end
